theory Spec2Isabelle
  imports Complex_Main
begin

section \<open>JavaScript strings\<close>

text \<open>
  A JavaScript string is modelled as a \<^typ>\<open>string\<close> of ASCII characters. The string
  methods used by \<^verbatim>\<open>dataProcessing.js\<close> are written out below; on ASCII text they agree
  with the built-ins. White space (\<^verbatim>\<open>\s\<close> and \<^verbatim>\<open>trim\<close>) is space, tab, line feed,
  vertical tab, form feed and carriage return.
\<close>

definition lower_char :: "char \<Rightarrow> char" where
  "lower_char c =
     (case map_of (zip ''ABCDEFGHIJKLMNOPQRSTUVWXYZ'' ''abcdefghijklmnopqrstuvwxyz'') c of
        None \<Rightarrow> c
      | Some l \<Rightarrow> l)"

definition toLowerCase :: "string \<Rightarrow> string" where
  "toLowerCase s = map lower_char s"

definition is_space :: "char \<Rightarrow> bool" where
  "is_space c = (c \<in> set [CHR '' '', CHR 0x09, CHR 0x0A, CHR 0x0B, CHR 0x0C, CHR 0x0D])"

definition trimStart :: "string \<Rightarrow> string" where
  "trimStart s = dropWhile is_space s"

definition trim :: "string \<Rightarrow> string" where
  "trim s = rev (trimStart (rev (trimStart s)))"

text \<open>\<^verbatim>\<open>s.replace(/\s+/g, '_')\<close>: every maximal run of white space becomes one underscore.
  The flag says whether the previous character was white space.\<close>

fun replace_ws_run :: "bool \<Rightarrow> string \<Rightarrow> string" where
  "replace_ws_run prev [] = []"
| "replace_ws_run prev (c # cs) =
     (if is_space c
      then (if prev then replace_ws_run True cs else CHR ''_'' # replace_ws_run True cs)
      else c # replace_ws_run False cs)"

definition replace_ws :: "string \<Rightarrow> string" where
  "replace_ws s = replace_ws_run False s"

text \<open>\<^verbatim>\<open>s.replace(/%/g, '')\<close> and \<^verbatim>\<open>s.replace(/[-_]/g, '')\<close>: delete every character of
  the class.\<close>

definition remove_chars :: "string \<Rightarrow> string \<Rightarrow> string" where
  "remove_chars cls s = filter (\<lambda>c. c \<notin> set cls) s"

fun startsWith :: "string \<Rightarrow> string \<Rightarrow> bool" where
  "startsWith s [] = True"
| "startsWith [] (p # ps) = False"
| "startsWith (c # cs) (p # ps) = (c = p \<and> startsWith cs ps)"

text \<open>\<^verbatim>\<open>s.includes(n)\<close>: \<open>n\<close> occurs in \<open>s\<close> as a contiguous substring.\<close>

fun str_includes :: "string \<Rightarrow> string \<Rightarrow> bool" where
  "str_includes [] n = (n = [])"
| "str_includes (c # cs) n = (startsWith (c # cs) n \<or> str_includes cs n)"

text \<open>Decimal digits of a non-negative integer, as in a template literal \<^verbatim>\<open>${n}\<close>.\<close>

definition digit_char :: "int \<Rightarrow> char" where
  "digit_char d = ''0123456789'' ! nat (d mod 10)"

function show_int :: "int \<Rightarrow> string" where
  "show_int n =
     (if n < 10 then [digit_char n] else show_int (n div 10) @ [digit_char (n mod 10)])"
  by pat_completeness auto
termination
  by (relation "measure nat") auto

declare show_int.simps [simp del]

definition show_nat :: "nat \<Rightarrow> string" where
  "show_nat n = show_int (int n)"

text \<open>\<^verbatim>\<open>xs.findIndex(P)\<close>: the index of the first element satisfying \<open>P\<close>, or \<open>-1\<close>.\<close>

fun findIndex_from :: "int \<Rightarrow> ('a \<Rightarrow> bool) \<Rightarrow> 'a list \<Rightarrow> int" where
  "findIndex_from i P [] = - 1"
| "findIndex_from i P (x # xs) = (if P x then i else findIndex_from (i + 1) P xs)"

definition findIndex :: "('a \<Rightarrow> bool) \<Rightarrow> 'a list \<Rightarrow> int" where
  "findIndex P xs = findIndex_from 0 P xs"


section \<open>The column catalogue\<close>

text \<open>The keys of the object \<^verbatim>\<open>COLUMN_MAPPINGS\<close>, in the order of the source.\<close>

datatype field =
  Channel | Ctr | Cpm | Reach | Frequency | Impressions | Clicks | Cost
| Budget | Demographic | Geography | Date

definition catalogue_fields :: "field list" where
  "catalogue_fields =
     [Channel, Ctr, Cpm, Reach, Frequency, Impressions, Clicks, Cost,
      Budget, Demographic, Geography, Date]"

fun COLUMN_MAPPINGS :: "field \<Rightarrow> string list" where
  "COLUMN_MAPPINGS Channel =
     [''channel'', ''platform'', ''media'', ''source'', ''campaign_type'', ''ad_platform'',
      ''advertising_channel'', ''media_channel'', ''placement'', ''vendor'']"
| "COLUMN_MAPPINGS Ctr =
     [''ctr'', ''click_through_rate'', ''click-through-rate'', ''clickthrough_rate'',
      ''click_rate'', ''clicks_per_impression'', ''click_percentage'', ''ctr_%'', ''ctr%'',
      ''click_thru_rate'', ''engagement_rate'']"
| "COLUMN_MAPPINGS Cpm =
     [''cpm'', ''cost_per_mille'', ''cost_per_thousand'', ''cost_per_1000'',
      ''cost_per_1k'', ''cpt'', ''cost_per_impression'', ''impression_cost'',
      ''cost_per_m'', ''cost_per_thousand_impressions'', ''cpm_cost'']"
| "COLUMN_MAPPINGS Reach =
     [''reach'', ''total_reach'', ''unique_reach'', ''audience_reach'', ''people_reached'',
      ''unique_users'', ''total_audience'', ''impressions_reach'', ''unduplicated_reach'',
      ''net_reach'', ''coverage'']"
| "COLUMN_MAPPINGS Frequency =
     [''frequency'', ''avg_frequency'', ''average_frequency'', ''freq'', ''impression_frequency'',
      ''contact_frequency'', ''exposure_frequency'', ''frequency_avg'', ''times_seen'']"
| "COLUMN_MAPPINGS Impressions =
     [''impressions'', ''total_impressions'', ''impression'', ''views'', ''total_views'',
      ''ad_impressions'', ''served_impressions'', ''delivered_impressions'']"
| "COLUMN_MAPPINGS Clicks =
     [''clicks'', ''total_clicks'', ''click'', ''link_clicks'', ''ad_clicks'',
      ''click_count'', ''clickthroughs'']"
| "COLUMN_MAPPINGS Cost =
     [''cost'', ''total_cost'', ''spend'', ''budget'', ''investment'', ''media_cost'',
      ''advertising_cost'', ''campaign_cost'', ''total_spend'', ''amount_spent'']"
| "COLUMN_MAPPINGS Budget =
     [''budget'', ''planned_budget'', ''allocated_budget'', ''budget_allocation'',
      ''investment'', ''spend_target'', ''budget_amount'']"
| "COLUMN_MAPPINGS Demographic =
     [''demographic'', ''demo'', ''age_group'', ''target_demo'', ''audience'',
      ''age_range'', ''demo_group'', ''target_audience'', ''segment'']"
| "COLUMN_MAPPINGS Geography =
     [''geography'', ''geo'', ''location'', ''region'', ''market'', ''area'',
      ''territory'', ''geographic_area'', ''locale'', ''city'', ''state'', ''country'']"
| "COLUMN_MAPPINGS Date =
     [''date'', ''time'', ''period'', ''week'', ''month'', ''quarter'', ''campaign_date'',
      ''flight_date'', ''run_date'', ''start_date'', ''end_date'']"


section \<open>findColumnMatch\<close>

record column_match =
  found :: bool
  originalName :: "string option"
  index :: int
  mappedTo :: field

text \<open>\<^verbatim>\<open>h.toString().toLowerCase().trim().replace(/\s+/g, '_')\<close>; a header is a string, on
  which \<^verbatim>\<open>toString\<close> is the identity.\<close>

definition normalize_header :: "string \<Rightarrow> string" where
  "normalize_header h = replace_ws (trim (toLowerCase h))"

text \<open>The predicate handed to \<^verbatim>\<open>findIndex\<close>, with its five disjuncts in source order.\<close>

definition header_matches :: "string \<Rightarrow> string \<Rightarrow> bool" where
  "header_matches normalizedPossible header \<longleftrightarrow>
     header = normalizedPossible \<or>
     str_includes header normalizedPossible \<or>
     str_includes normalizedPossible header \<or>
     str_includes (remove_chars ''%'' header) normalizedPossible \<or>
     str_includes (remove_chars ''-_'' header) (remove_chars ''-_'' normalizedPossible)"

text \<open>\<^verbatim>\<open>headers[i]\<close>; out of range JavaScript yields \<^verbatim>\<open>undefined\<close>, here \<open>None\<close>.\<close>

definition header_at :: "string list \<Rightarrow> int \<Rightarrow> string option" where
  "header_at hs i = (if 0 \<le> i \<and> nat i < length hs then Some (hs ! nat i) else None)"

text \<open>The \<^verbatim>\<open>for (let possibleName of possibleNames)\<close> loop: the first alias for which
  \<^verbatim>\<open>findIndex\<close> succeeds decides; the final equation is the \<^verbatim>\<open>return\<close> after the loop.\<close>

fun match_loop :: "string list \<Rightarrow> string list \<Rightarrow> field \<Rightarrow> string list \<Rightarrow> column_match" where
  "match_loop hs normalizedHeaders targetColumn [] =
     \<lparr>found = False, originalName = None, index = - 1, mappedTo = targetColumn\<rparr>"
| "match_loop hs normalizedHeaders targetColumn (possibleName # rest) =
     (let normalizedPossible = trim (toLowerCase possibleName);
          matchIndex = findIndex (header_matches normalizedPossible) normalizedHeaders
      in if matchIndex \<noteq> - 1
         then \<lparr>found = True, originalName = header_at hs matchIndex,
               index = matchIndex, mappedTo = targetColumn\<rparr>
         else match_loop hs normalizedHeaders targetColumn rest)"

definition findColumnMatch :: "string list \<Rightarrow> field \<Rightarrow> column_match" where
  "findColumnMatch hs targetColumn =
     match_loop hs (map normalize_header hs) targetColumn (COLUMN_MAPPINGS targetColumn)"


section \<open>Tables\<close>

text \<open>
  A JavaScript number is an IEEE double. The model keeps the values that are not finite
  apart and takes a finite number as an exact rational: sums and quotients are exact
  where the double arithmetic rounds, and there is no negative zero.
\<close>

datatype jsnum = NaN | Fin rat | PosInf | NegInf

text \<open>A cell of a parsed row: a string, a number, \<^verbatim>\<open>null\<close> for an empty cell, or
  \<^verbatim>\<open>undefined\<close> where the row is too short.\<close>

datatype jsval = Undefined | Null | JStr string | JNum jsnum

text \<open>An entry of \<^verbatim>\<open>data.rows\<close> is an array of cells; \<open>NoRow\<close> stands for an entry that
  is \<^verbatim>\<open>null\<close> or \<^verbatim>\<open>undefined\<close> instead of an array.\<close>

datatype row = Row "jsval list" | NoRow

text \<open>The object built by \<^verbatim>\<open>processCSVFile\<close>; \<open>None\<close> is a property that is absent.
  Headers are strings, as in the data model of the specification; a header cell of
  another type is outside the model.\<close>

record csv_data =
  headers :: "string list option"
  rows :: "row list option"


section \<open>validateMediaData\<close>

text \<open>\<^verbatim>\<open>hasChannelData\<close> is \<^verbatim>\<open>foundMappings.channel || headers.some(...)\<close>: the match
  object itself when the channel was found, a boolean otherwise.\<close>

datatype chan_flag = ChanMatch column_match | ChanBool bool

text \<open>The verdict object. The early return for a table without headers leaves
  \<^verbatim>\<open>foundColumns\<close>, \<^verbatim>\<open>hasChannelData\<close> and \<^verbatim>\<open>dataQuality\<close> out: they are \<open>None\<close> there.\<close>

record verdict =
  isValid :: bool
  missingColumns :: "field list"
  foundColumns :: "field list option"
  columnMappings :: "field \<rightharpoonup> column_match"
  suggestions :: string
  hasChannelData :: "chan_flag option"
  recommendedColumns :: "field list"
  dataQuality :: "string option"

definition idealColumns :: "field list" where
  "idealColumns = [Channel, Ctr, Cpm, Reach, Frequency, Impressions, Clicks, Cost]"

definition no_headers_verdict :: verdict where
  "no_headers_verdict =
     \<lparr>isValid = False, missingColumns = [], foundColumns = None,
      columnMappings = Map.empty,
      suggestions = ''No headers found in the CSV file. Please ensure the first row contains column headers.'',
      hasChannelData = None, recommendedColumns = [], dataQuality = None\<rparr>"

text \<open>The body of \<^verbatim>\<open>idealColumns.forEach\<close>, on the three accumulators
  \<^verbatim>\<open>foundMappings\<close>, \<^verbatim>\<open>missingColumns\<close> and \<^verbatim>\<open>foundColumns\<close>.\<close>

type_synonym mapping_state = "(field \<rightharpoonup> column_match) \<times> field list \<times> field list"

definition map_column :: "string list \<Rightarrow> field \<Rightarrow> mapping_state \<Rightarrow> mapping_state" where
  "map_column hs column st =
     (case st of (foundMappings, missing, foundCols) \<Rightarrow>
        (let match = findColumnMatch hs column
         in if found match
            then (foundMappings(column \<mapsto> match), missing, foundCols @ [column])
            else (foundMappings, missing @ [column], foundCols)))"

definition mentions_channel :: "string \<Rightarrow> bool" where
  "mentions_channel h \<longleftrightarrow>
     str_includes (toLowerCase h) ''platform'' \<or> str_includes (toLowerCase h) ''source''"

definition validateMediaData :: "csv_data \<Rightarrow> verdict" where
  "validateMediaData data =
     (case headers data of
        None \<Rightarrow> no_headers_verdict
      | Some hs \<Rightarrow>
          if length hs = 0 then no_headers_verdict
          else
            (case fold (map_column hs) idealColumns (Map.empty, [], []) of
               (foundMappings, missing, foundCols) \<Rightarrow>
                 (let hasMinimumData = (length foundCols \<ge> 2);
                      hasChannel =
                        (case foundMappings Channel of
                           Some m \<Rightarrow> ChanMatch m
                         | None \<Rightarrow> ChanBool (list_ex mentions_channel hs))
                  in \<lparr>isValid = hasMinimumData,
                      missingColumns = missing,
                      foundColumns = Some foundCols,
                      columnMappings = foundMappings,
                      suggestions =
                        (if hasMinimumData
                         then ''Great! Found '' @ show_nat (length foundCols)
                              @ '' relevant columns. The AI can analyze this data.''
                         else ''Found '' @ show_nat (length foundCols)
                              @ '' relevant columns. For best results, include columns for channel, metrics like CTR/CPM, and performance data.''),
                      hasChannelData = Some hasChannel,
                      recommendedColumns = foundCols,
                      dataQuality =
                        Some (if hasMinimumData
                              then (if length foundCols \<ge> 4 then ''excellent'' else ''good'')
                              else ''limited'')\<rparr>)))"


section \<open>JavaScript numbers\<close>

definition isNaN :: "jsnum \<Rightarrow> bool" where
  "isNaN x \<longleftrightarrow> x = NaN"

text \<open>\<^verbatim>\<open>a > b\<close>: false as soon as one side is \<^verbatim>\<open>NaN\<close>.\<close>

fun js_gt :: "jsnum \<Rightarrow> jsnum \<Rightarrow> bool" where
  "js_gt (Fin a) (Fin b) = (a > b)"
| "js_gt (Fin a) NegInf = True"
| "js_gt PosInf (Fin b) = True"
| "js_gt PosInf NegInf = True"
| "js_gt a b = False"

fun js_add :: "jsnum \<Rightarrow> jsnum \<Rightarrow> jsnum" where
  "js_add (Fin a) (Fin b) = Fin (a + b)"
| "js_add (Fin a) PosInf = PosInf"
| "js_add (Fin a) NegInf = NegInf"
| "js_add PosInf (Fin b) = PosInf"
| "js_add PosInf PosInf = PosInf"
| "js_add NegInf (Fin b) = NegInf"
| "js_add NegInf NegInf = NegInf"
| "js_add a b = NaN"

fun js_div :: "jsnum \<Rightarrow> jsnum \<Rightarrow> jsnum" where
  "js_div (Fin a) (Fin b) =
     (if b \<noteq> 0 then Fin (a / b) else if a = 0 then NaN else if a > 0 then PosInf else NegInf)"
| "js_div (Fin a) PosInf = Fin 0"
| "js_div (Fin a) NegInf = Fin 0"
| "js_div PosInf (Fin b) = (if b \<ge> 0 then PosInf else NegInf)"
| "js_div NegInf (Fin b) = (if b \<ge> 0 then NegInf else PosInf)"
| "js_div a b = NaN"

text \<open>\<^verbatim>\<open>values.reduce((sum, val) => sum + val, 0)\<close>\<close>

definition sum_values :: "jsnum list \<Rightarrow> jsnum" where
  "sum_values vs = foldl js_add (Fin 0) vs"

text \<open>\<^verbatim>\<open>values.length\<close> as a number.\<close>

definition count_of :: "'a list \<Rightarrow> jsnum" where
  "count_of vs = Fin (of_nat (length vs))"

text \<open>\<^verbatim>\<open>Math.max(...values)\<close> and \<^verbatim>\<open>Math.min(...values)\<close>: \<^verbatim>\<open>NaN\<close> is contagious, and the
  empty list gives the infinity the comparison starts from.\<close>

definition max_step :: "jsnum \<Rightarrow> jsnum \<Rightarrow> jsnum" where
  "max_step acc v = (if isNaN acc \<or> isNaN v then NaN else if js_gt v acc then v else acc)"

definition Math_max :: "jsnum list \<Rightarrow> jsnum" where
  "Math_max vs = foldl max_step NegInf vs"

definition min_step :: "jsnum \<Rightarrow> jsnum \<Rightarrow> jsnum" where
  "min_step acc v = (if isNaN acc \<or> isNaN v then NaN else if js_gt acc v then v else acc)"

definition Math_min :: "jsnum list \<Rightarrow> jsnum" where
  "Math_min vs = foldl min_step PosInf vs"

text \<open>\<^verbatim>\<open>Math.round\<close>: to the nearest integer, a tie towards plus infinity.\<close>

fun Math_round :: "jsnum \<Rightarrow> jsnum" where
  "Math_round (Fin a) = Fin (of_int \<lfloor>a + 1 / 2\<rfloor>)"
| "Math_round a = a"

text \<open>The string of a number of magnitude at least \<open>10\<^sup>2\<^sup>1\<close> is in exponent notation. A
  double that large is an integer; the model prints the digits of the integer part of the
  exact value, without its trailing zeros.\<close>

definition strip_zeros :: "string \<Rightarrow> string" where
  "strip_zeros ds = rev (dropWhile (\<lambda>c. c = CHR ''0'') (rev ds))"

definition exponent_string :: "rat \<Rightarrow> string" where
  "exponent_string q =
     (let ds = show_int \<lfloor>\<bar>q\<bar>\<rfloor>;
          sig = strip_zeros ds
      in (if q < 0 then ''-'' else [])
         @ take 1 sig @ (if length sig > 1 then ''.'' @ drop 1 sig else [])
         @ ''e+'' @ show_nat (length ds - 1))"

text \<open>\<^verbatim>\<open>x.toFixed(f)\<close> after ECMAScript: the integer \<open>n\<close> nearest to \<open>x * 10\<^sup>f\<close> (of two, the
  larger), its digits padded with zeros to \<open>f + 1\<close> places, and the point before the last
  \<open>f\<close> digits.\<close>

definition fixed_digits :: "nat \<Rightarrow> int \<Rightarrow> string" where
  "fixed_digits f n =
     (let m = show_int n;
          padded = replicate (f + 1 - length m) CHR ''0'' @ m
      in if f = 0 then m
         else take (length padded - f) padded @ ''.'' @ drop (length padded - f) padded)"

definition toFixed :: "nat \<Rightarrow> jsnum \<Rightarrow> string" where
  "toFixed f x =
     (case x of
        NaN \<Rightarrow> ''NaN''
      | PosInf \<Rightarrow> ''Infinity''
      | NegInf \<Rightarrow> ''-Infinity''
      | Fin q \<Rightarrow>
          if \<bar>q\<bar> \<ge> 10 ^ 21 then exponent_string q
          else (if q < 0 then ''-'' else [])
               @ fixed_digits f \<lfloor>\<bar>q\<bar> * 10 ^ f + 1 / 2\<rfloor>)"

text \<open>The value of a digit in a radix up to sixteen, if the character is one.\<close>

definition digit_of :: "int \<Rightarrow> char \<Rightarrow> int option" where
  "digit_of radix c =
     (case map_of (zip ''0123456789abcdef'' [0 .. 15]) (lower_char c) of
        None \<Rightarrow> None
      | Some d \<Rightarrow> if d < radix then Some d else None)"

definition is_digit :: "int \<Rightarrow> char \<Rightarrow> bool" where
  "is_digit radix c \<longleftrightarrow> digit_of radix c \<noteq> None"

definition digits_val :: "int \<Rightarrow> string \<Rightarrow> int" where
  "digits_val radix ds =
     foldl (\<lambda>acc c. radix * acc + (case digit_of radix c of None \<Rightarrow> 0 | Some d \<Rightarrow> d)) 0 ds"

text \<open>The exponent part \<^verbatim>\<open>e\<close>, sign, digits at the head of the rest of a literal, as the
  factor it stands for; \<open>1\<close> when there is no complete exponent part.\<close>

definition exponent_factor :: "string \<Rightarrow> rat" where
  "exponent_factor r =
     (if startsWith r ''e'' \<or> startsWith r ''E''
      then (let r1 = tl r;
                neg = startsWith r1 ''-'';
                r2 = (if startsWith r1 ''-'' \<or> startsWith r1 ''+'' then tl r1 else r1);
                ds = takeWhile (is_digit 10) r2
            in if ds = [] then 1
               else if neg then 1 / 10 ^ nat (digits_val 10 ds)
               else 10 ^ nat (digits_val 10 ds))
      else 1)"

text \<open>\<^verbatim>\<open>parseFloat\<close> of a string: leading white space is skipped and the longest prefix that
  is a decimal literal is read; \<^verbatim>\<open>NaN\<close> when there is none.\<close>

definition parseFloat_str :: "string \<Rightarrow> jsnum" where
  "parseFloat_str s =
     (let t = trimStart s;
          neg = startsWith t ''-'';
          u = (if startsWith t ''-'' \<or> startsWith t ''+'' then tl t else t)
      in if startsWith u ''Infinity'' then (if neg then NegInf else PosInf)
         else
           (let ip = takeWhile (is_digit 10) u;
                r1 = dropWhile (is_digit 10) u;
                fp = (if startsWith r1 ''.'' then takeWhile (is_digit 10) (tl r1) else []);
                r2 = (if startsWith r1 ''.'' then dropWhile (is_digit 10) (tl r1) else r1)
            in if ip = [] \<and> fp = [] then NaN
               else Fin ((if neg then - 1 else 1)
                         * (of_int (digits_val 10 ip) + of_int (digits_val 10 fp) / 10 ^ length fp)
                         * exponent_factor r2)))"

text \<open>\<^verbatim>\<open>parseFloat(cell)\<close> turns its argument into a string first. The string of a number
  reads back as that number; \<^verbatim>\<open>"null"\<close> and \<^verbatim>\<open>"undefined"\<close> are no literals.\<close>

fun parseFloat :: "jsval \<Rightarrow> jsnum" where
  "parseFloat (JStr s) = parseFloat_str s"
| "parseFloat (JNum x) = x"
| "parseFloat Null = NaN"
| "parseFloat Undefined = NaN"

text \<open>\<^verbatim>\<open>parseInt\<close> of a string without a radix: white space, a sign, \<^verbatim>\<open>0x\<close> for radix
  sixteen, then the longest run of digits; \<^verbatim>\<open>NaN\<close> when the run is empty.\<close>

definition parseInt_str :: "string \<Rightarrow> jsnum" where
  "parseInt_str s =
     (let t = trimStart s;
          neg = startsWith t ''-'';
          u = (if startsWith t ''-'' \<or> startsWith t ''+'' then tl t else t);
          hex = (startsWith u ''0x'' \<or> startsWith u ''0X'');
          radix = (if hex then 16 else 10);
          ds = takeWhile (is_digit radix) (if hex then drop 2 u else u)
      in if ds = [] then NaN
         else Fin ((if neg then - 1 else 1) * of_int (digits_val radix ds)))"

text \<open>The first significant decimal digit of a positive rational. It is what
  \<^verbatim>\<open>parseInt\<close> reads from a number printed in exponent notation, that is below \<open>10\<^sup>-\<^sup>6\<close> or from
  \<open>10\<^sup>2\<^sup>1\<close> on.\<close>

definition leading_digit :: "rat \<Rightarrow> int" where
  "leading_digit q =
     (if q \<ge> 1 then digits_val 10 (take 1 (show_int \<lfloor>q\<rfloor>))
      else (let k = length (show_int \<lfloor>1 / q\<rfloor>);
                y = q * 10 ^ k
            in if y \<ge> 10 then 1 else \<lfloor>y\<rfloor>))"

text \<open>\<^verbatim>\<open>parseInt(cell)\<close>: a number is printed first, so in decimal notation its integer part
  is read and in exponent notation its first digit.\<close>

fun parseInt :: "jsval \<Rightarrow> jsnum" where
  "parseInt (JStr s) = parseInt_str s"
| "parseInt (JNum (Fin q)) =
     (if q = 0 then Fin 0
      else if \<bar>q\<bar> < 1 / 10 ^ 6 \<or> \<bar>q\<bar> \<ge> 10 ^ 21
      then Fin ((if q < 0 then - 1 else 1) * of_int (leading_digit \<bar>q\<bar>))
      else Fin ((if q < 0 then - 1 else 1) * of_int \<lfloor>\<bar>q\<bar>\<rfloor>))"
| "parseInt (JNum x) = NaN"
| "parseInt Null = NaN"
| "parseInt Undefined = NaN"


section \<open>calculateBasicMetrics\<close>

text \<open>Exceptions are values: a function that can throw returns \<open>Inl\<close> of the error.\<close>

datatype jserror = TypeError | ReferenceError

definition bind_err :: "jserror + 'a \<Rightarrow> ('a \<Rightarrow> jserror + 'b) \<Rightarrow> jserror + 'b" where
  "bind_err m f = (case m of Inl e \<Rightarrow> Inl e | Inr x \<Rightarrow> f x)"

text \<open>\<^verbatim>\<open>row[i]\<close>: reading a property of \<^verbatim>\<open>null\<close> or \<^verbatim>\<open>undefined\<close> throws a
  \<^verbatim>\<open>TypeError\<close>; an array yields \<^verbatim>\<open>undefined\<close> out of its range.\<close>

fun cell_at :: "row \<Rightarrow> int \<Rightarrow> jserror + jsval" where
  "cell_at NoRow i = Inl TypeError"
| "cell_at (Row cs) i = Inr (if 0 \<le> i \<and> nat i < length cs then cs ! nat i else Undefined)"

text \<open>\<^verbatim>\<open>rows.map(f)\<close> for a callback that can throw: the first exception ends the map.\<close>

fun map_rows :: "(row \<Rightarrow> jserror + 'a) \<Rightarrow> row list \<Rightarrow> jserror + 'a list" where
  "map_rows f [] = Inr []"
| "map_rows f (r # rs) =
     bind_err (f r) (\<lambda>v. bind_err (map_rows f rs) (\<lambda>vs. Inr (v # vs)))"

text \<open>\<^verbatim>\<open>data.rows.map(row => parse(row[i])).filter(val => !isNaN(val) && val > 0)\<close>\<close>

definition keeps :: "jsnum \<Rightarrow> bool" where
  "keeps val \<longleftrightarrow> \<not> isNaN val \<and> js_gt val (Fin 0)"

definition column_values :: "(jsval \<Rightarrow> jsnum) \<Rightarrow> int \<Rightarrow> row list \<Rightarrow> jserror + jsnum list" where
  "column_values parse i rs =
     bind_err (map_rows (\<lambda>row. bind_err (cell_at row i) (\<lambda>c. Inr (parse c))) rs)
       (\<lambda>vals. Inr (filter keeps vals))"

text \<open>The object \<^verbatim>\<open>metrics\<close>. A statistic is a JavaScript value, a string or a number as
  the source produces it; \<open>None\<close> is a key that was never assigned. The field
  \<open>m_dataQuality\<close> is the key \<^verbatim>\<open>dataQuality\<close>.\<close>

record snapshot =
  totalCampaigns :: jsval
  totalRows :: jsval
  columnsFound :: "field list option"
  m_dataQuality :: "string option"
  avgCTR :: "jsval option"
  maxCTR :: "jsval option"
  minCTR :: "jsval option"
  avgCPM :: "jsval option"
  maxCPM :: "jsval option"
  minCPM :: "jsval option"
  totalReach :: "jsval option"
  avgReach :: "jsval option"
  avgFrequency :: "jsval option"
  totalCost :: "jsval option"
  avgCost :: "jsval option"

text \<open>What \<^verbatim>\<open>calculateBasicMetrics\<close> returns: \<^verbatim>\<open>null\<close>, the object \<^verbatim>\<open>metrics\<close>, or the
  object of the catch block with \<^verbatim>\<open>totalCampaigns\<close> and \<^verbatim>\<open>error\<close>.\<close>

datatype metrics_result = NoData | Metrics snapshot | Degraded jsval string

definition initial_metrics :: "verdict \<Rightarrow> row list \<Rightarrow> snapshot" where
  "initial_metrics validation rs =
     \<lparr>totalCampaigns = JNum (count_of rs), totalRows = JNum (count_of rs),
      columnsFound = foundColumns validation, m_dataQuality = dataQuality validation,
      avgCTR = None, maxCTR = None, minCTR = None,
      avgCPM = None, maxCPM = None, minCPM = None,
      totalReach = None, avgReach = None, avgFrequency = None,
      totalCost = None, avgCost = None\<rparr>"

text \<open>The five \<^verbatim>\<open>if (mappings.x)\<close> blocks of the try block, in source order.\<close>

definition ctr_step :: "(field \<rightharpoonup> column_match) \<Rightarrow> row list \<Rightarrow> snapshot \<Rightarrow> jserror + snapshot" where
  "ctr_step mappings rs metrics =
     (case mappings Ctr of
        None \<Rightarrow> Inr metrics
      | Some m \<Rightarrow>
          bind_err (column_values parseFloat (index m) rs) (\<lambda>ctrValues.
            if length ctrValues > 0
            then Inr (metrics\<lparr>
                   avgCTR := Some (JStr (toFixed 2 (js_div (sum_values ctrValues) (count_of ctrValues)))),
                   maxCTR := Some (JStr (toFixed 2 (Math_max ctrValues))),
                   minCTR := Some (JStr (toFixed 2 (Math_min ctrValues)))\<rparr>)
            else Inr metrics))"

definition cpm_step :: "(field \<rightharpoonup> column_match) \<Rightarrow> row list \<Rightarrow> snapshot \<Rightarrow> jserror + snapshot" where
  "cpm_step mappings rs metrics =
     (case mappings Cpm of
        None \<Rightarrow> Inr metrics
      | Some m \<Rightarrow>
          bind_err (column_values parseFloat (index m) rs) (\<lambda>cpmValues.
            if length cpmValues > 0
            then Inr (metrics\<lparr>
                   avgCPM := Some (JStr (toFixed 2 (js_div (sum_values cpmValues) (count_of cpmValues)))),
                   maxCPM := Some (JStr (toFixed 2 (Math_max cpmValues))),
                   minCPM := Some (JStr (toFixed 2 (Math_min cpmValues)))\<rparr>)
            else Inr metrics))"

definition reach_step :: "(field \<rightharpoonup> column_match) \<Rightarrow> row list \<Rightarrow> snapshot \<Rightarrow> jserror + snapshot" where
  "reach_step mappings rs metrics =
     (case mappings Reach of
        None \<Rightarrow> Inr metrics
      | Some m \<Rightarrow>
          bind_err (column_values parseInt (index m) rs) (\<lambda>reachValues.
            if length reachValues > 0
            then Inr (metrics\<lparr>
                   totalReach := Some (JNum (sum_values reachValues)),
                   avgReach := Some (JNum (Math_round (js_div (sum_values reachValues) (count_of reachValues))))\<rparr>)
            else Inr metrics))"

definition frequency_step :: "(field \<rightharpoonup> column_match) \<Rightarrow> row list \<Rightarrow> snapshot \<Rightarrow> jserror + snapshot" where
  "frequency_step mappings rs metrics =
     (case mappings Frequency of
        None \<Rightarrow> Inr metrics
      | Some m \<Rightarrow>
          bind_err (column_values parseFloat (index m) rs) (\<lambda>freqValues.
            if length freqValues > 0
            then Inr (metrics\<lparr>
                   avgFrequency := Some (JStr (toFixed 1 (js_div (sum_values freqValues) (count_of freqValues))))\<rparr>)
            else Inr metrics))"

definition cost_step :: "(field \<rightharpoonup> column_match) \<Rightarrow> row list \<Rightarrow> snapshot \<Rightarrow> jserror + snapshot" where
  "cost_step mappings rs metrics =
     (case mappings Cost of
        None \<Rightarrow> Inr metrics
      | Some m \<Rightarrow>
          bind_err (column_values parseFloat (index m) rs) (\<lambda>costValues.
            if length costValues > 0
            then Inr (metrics\<lparr>
                   totalCost := Some (JNum (sum_values costValues)),
                   avgCost := Some (JStr (toFixed 2 (js_div (sum_values costValues) (count_of costValues))))\<rparr>)
            else Inr metrics))"

definition try_block :: "verdict \<Rightarrow> (field \<rightharpoonup> column_match) \<Rightarrow> row list \<Rightarrow> jserror + snapshot" where
  "try_block validation mappings rs =
     bind_err (ctr_step mappings rs (initial_metrics validation rs)) (\<lambda>m1.
     bind_err (cpm_step mappings rs m1) (\<lambda>m2.
     bind_err (reach_step mappings rs m2) (\<lambda>m3.
     bind_err (frequency_step mappings rs m3) (\<lambda>m4.
     cost_step mappings rs m4))))"

text \<open>The identifiers that the catch block can read: the parameter \<^verbatim>\<open>data\<close>, the constants
  \<^verbatim>\<open>validation\<close> and \<^verbatim>\<open>mappings\<close> declared before \<^verbatim>\<open>try\<close>, and the caught \<^verbatim>\<open>error\<close>. The
  variables \<^verbatim>\<open>totalRows\<close> and \<^verbatim>\<open>metrics\<close> are declared with \<^verbatim>\<open>let\<close> inside the try block
  and end with it; the module declares no \<^verbatim>\<open>totalRows\<close> either.\<close>

definition catch_scope :: "string list" where
  "catch_scope = [''data'', ''validation'', ''mappings'', ''error'']"

text \<open>The catch block returns \<^verbatim>\<open>{totalCampaigns: totalRows, error: '...'}\<close>; reading an
  identifier that is not in scope throws a \<^verbatim>\<open>ReferenceError\<close>. Its call of
  \<^verbatim>\<open>console.error\<close> does not change the result and is left out.\<close>

definition catch_block :: "row list \<Rightarrow> jserror \<Rightarrow> jserror + metrics_result" where
  "catch_block rs error =
     (if ''totalRows'' \<in> set catch_scope
      then Inr (Degraded (JNum (count_of rs))
                  ''Could not calculate metrics, but data can still be analyzed'')
      else Inl ReferenceError)"

definition calculateBasicMetrics :: "csv_data \<Rightarrow> jserror + metrics_result" where
  "calculateBasicMetrics data =
     (case rows data of
        None \<Rightarrow> Inr NoData
      | Some rs \<Rightarrow>
          if length rs = 0 then Inr NoData
          else
            (let validation = validateMediaData data;
                 mappings = columnMappings validation
             in case try_block validation mappings rs of
                  Inr metrics \<Rightarrow> Inr (Metrics metrics)
                | Inl error \<Rightarrow> catch_block rs error))"


section \<open>prepareDataForAI\<close>

text \<open>The payload object; \<open>p_foundColumns\<close>, \<open>p_dataQuality\<close>, \<open>p_totalRows\<close> and
  \<open>p_hasChannelData\<close> are the keys \<^verbatim>\<open>foundColumns\<close>, \<^verbatim>\<open>dataQuality\<close>, \<^verbatim>\<open>totalRows\<close> and
  \<^verbatim>\<open>hasChannelData\<close>.\<close>

record payload =
  originalHeaders :: "string list option"
  mappedColumns :: "field \<rightharpoonup> column_match"
  p_foundColumns :: "field list option"
  p_dataQuality :: "string option"
  sampleRows :: "row list"
  p_totalRows :: nat
  basicMetrics :: metrics_result
  p_hasChannelData :: "chan_flag option"

text \<open>The properties are evaluated in order: \<^verbatim>\<open>data.rows.slice(0, 10)\<close> throws a
  \<^verbatim>\<open>TypeError\<close> when \<^verbatim>\<open>rows\<close> is absent, and an exception of \<^verbatim>\<open>calculateBasicMetrics\<close>
  passes through.\<close>

definition prepareDataForAI :: "csv_data \<Rightarrow> jserror + payload" where
  "prepareDataForAI data =
     (let validation = validateMediaData data
      in case rows data of
           None \<Rightarrow> Inl TypeError
         | Some rs \<Rightarrow>
             bind_err (calculateBasicMetrics data) (\<lambda>metrics.
               Inr \<lparr>originalHeaders = headers data,
                    mappedColumns = columnMappings validation,
                    p_foundColumns = foundColumns validation,
                    p_dataQuality = dataQuality validation,
                    sampleRows = take 10 rs,
                    p_totalRows = length rs,
                    basicMetrics = metrics,
                    p_hasChannelData = hasChannelData validation\<rparr>))"


section \<open>The properties, in the words of the specification\<close>

text \<open>
  The definitions of this section are not taken from the source. They write down what
  the specification says a function computes, to be compared with the function.
\<close>

text \<open>An alias and the position of a header satisfy the matching predicate.\<close>

definition pair_matches :: "string list \<Rightarrow> string \<times> nat \<Rightarrow> bool" where
  "pair_matches hs p \<longleftrightarrow>
     header_matches (trim (toLowerCase (fst p))) (normalize_header (hs ! snd p))"

text \<open>The first matching pair when the aliases of the field are the outer loop, in
  catalogue order, and the positions of the headers the inner loop, in their order.\<close>

definition first_pair :: "string list \<Rightarrow> field \<Rightarrow> (string \<times> nat) option" where
  "first_pair hs f =
     find (pair_matches hs) (List.product (COLUMN_MAPPINGS f) [0 ..< length hs])"

definition match_of_pair :: "string list \<Rightarrow> field \<Rightarrow> (string \<times> nat) option \<Rightarrow> column_match" where
  "match_of_pair hs f p =
     (case p of
        None \<Rightarrow> \<lparr>found = False, originalName = None, index = - 1, mappedTo = f\<rparr>
      | Some (a, i) \<Rightarrow>
          \<lparr>found = True, originalName = Some (hs ! i), index = int i, mappedTo = f\<rparr>)"

text \<open>The headers match a field: some alias of the field and some header satisfy the
  predicate. The number \<open>k\<close> of the specification counts the fields that the validator
  tries and the headers match.\<close>

definition matchable :: "string list \<Rightarrow> field \<Rightarrow> bool" where
  "matchable hs f \<longleftrightarrow>
     (\<exists>a \<in> set (COLUMN_MAPPINGS f). \<exists>h \<in> set hs.
        header_matches (trim (toLowerCase a)) (normalize_header h))"

definition matched_count :: "string list \<Rightarrow> nat" where
  "matched_count hs = length (filter (matchable hs) idealColumns)"

text \<open>A number strictly greater than zero.\<close>

fun is_positive :: "jsnum \<Rightarrow> bool" where
  "is_positive (Fin q) = (0 < q)"
| "is_positive PosInf = True"
| "is_positive NaN = False"
| "is_positive NegInf = False"

text \<open>The cells of a column, one for each row that is an array.\<close>

definition column_cells :: "int \<Rightarrow> row list \<Rightarrow> jsval list" where
  "column_cells i rs =
     concat (map (\<lambda>r. case r of
                         Row cs \<Rightarrow> [if 0 \<le> i \<and> nat i < length cs then cs ! nat i else Undefined]
                       | NoRow \<Rightarrow> []) rs)"

text \<open>The numbers that the statistics of a column are computed over: the parsed values
  of the cells that parse as a number strictly greater than zero, in row order.\<close>

definition survivors :: "(jsval \<Rightarrow> jsnum) \<Rightarrow> int \<Rightarrow> row list \<Rightarrow> jsnum list" where
  "survivors parse i rs = map parse (filter (\<lambda>c. is_positive (parse c)) (column_cells i rs))"

text \<open>The average: the sum over the count.\<close>

definition mean_of :: "jsnum list \<Rightarrow> jsnum" where
  "mean_of vs = js_div (sum_values vs) (count_of vs)"

text \<open>The keys of the snapshot that belong to one field.\<close>

definition ctr_keys :: "snapshot \<Rightarrow> jsval option \<times> jsval option \<times> jsval option" where
  "ctr_keys m = (avgCTR m, minCTR m, maxCTR m)"

definition cpm_keys :: "snapshot \<Rightarrow> jsval option \<times> jsval option \<times> jsval option" where
  "cpm_keys m = (avgCPM m, minCPM m, maxCPM m)"

definition reach_keys :: "snapshot \<Rightarrow> jsval option \<times> jsval option" where
  "reach_keys m = (totalReach m, avgReach m)"

definition frequency_keys :: "snapshot \<Rightarrow> jsval option" where
  "frequency_keys m = avgFrequency m"

definition cost_keys :: "snapshot \<Rightarrow> jsval option \<times> jsval option" where
  "cost_keys m = (totalCost m, avgCost m)"

text \<open>The statistics of a field over the surviving numbers, as the keys of the field hold
  them: average, minimum and maximum for ctr and cpm, total and rounded average for
  reach, the average for frequency, total and average for cost; no key at all when no
  number survives.\<close>

definition rate_stats :: "jsnum list \<Rightarrow> jsval option \<times> jsval option \<times> jsval option" where
  "rate_stats vs =
     (if vs = [] then (None, None, None)
      else (Some (JStr (toFixed 2 (mean_of vs))),
            Some (JStr (toFixed 2 (Math_min vs))),
            Some (JStr (toFixed 2 (Math_max vs)))))"

definition reach_stats :: "jsnum list \<Rightarrow> jsval option \<times> jsval option" where
  "reach_stats vs =
     (if vs = [] then (None, None)
      else (Some (JNum (sum_values vs)), Some (JNum (Math_round (mean_of vs)))))"

definition frequency_stats :: "jsnum list \<Rightarrow> jsval option" where
  "frequency_stats vs = (if vs = [] then None else Some (JStr (toFixed 1 (mean_of vs))))"

definition cost_stats :: "jsnum list \<Rightarrow> jsval option \<times> jsval option" where
  "cost_stats vs =
     (if vs = [] then (None, None)
      else (Some (JNum (sum_values vs)), Some (JStr (toFixed 2 (mean_of vs)))))"

text \<open>The keys that every snapshot has.\<close>

definition base_keys :: "snapshot \<Rightarrow> jsval \<times> jsval \<times> field list option \<times> string option" where
  "base_keys m = (totalCampaigns m, totalRows m, columnsFound m, m_dataQuality m)"

text \<open>A statistic that, when present, is a string printed by \<^verbatim>\<open>toFixed\<close>, and one that, when
  present, is a number.\<close>

definition fixed_string :: "nat \<Rightarrow> jsval option \<Rightarrow> bool" where
  "fixed_string f v \<longleftrightarrow> v = None \<or> (\<exists>x. v = Some (JStr (toFixed f x)))"

definition number_valued :: "jsval option \<Rightarrow> bool" where
  "number_valued v \<longleftrightarrow> v = None \<or> (\<exists>x. v = Some (JNum x))"

text \<open>Every entry of \<^verbatim>\<open>rows\<close> is an array, as the data model of the specification has it.\<close>

definition all_arrays :: "row list \<Rightarrow> bool" where
  "all_arrays rs \<longleftrightarrow> NoRow \<notin> set rs"


text \<open>The tables of the examples of the specification, and the snapshots computed for them.\<close>

definition scenario_table :: csv_data where
  "scenario_table =
     \<lparr>headers = Some [''Platform'', ''Click-Through Rate'', ''CPM ($)'', ''Total Reach''],
      rows = Some [Row [JStr ''Facebook'', JNum (Fin (23 / 10)), JNum (Fin (31 / 2)),
                        JNum (Fin 45000)]]\<rparr>"

definition ctr_rows :: "row list" where
  "ctr_rows = [Row [JNum (Fin 5)], Row [JNum (Fin (- 3))], Row [JStr ''abc''],
               Row [JNum (Fin 0)], Row [JNum (Fin 10)]]"

definition ctr_table :: csv_data where
  "ctr_table = \<lparr>headers = Some [''ctr''], rows = Some ctr_rows\<rparr>"

definition barren_rows :: "row list" where
  "barren_rows = [Row [JNum (Fin 0)], Row [JStr ''abc'']]"

definition barren_table :: csv_data where
  "barren_table = \<lparr>headers = Some [''ctr''], rows = Some barren_rows\<rparr>"

definition five_field_table :: csv_data where
  "five_field_table =
     \<lparr>headers = Some [''ctr'', ''cpm'', ''reach'', ''frequency'', ''cost''],
      rows = Some [Row [JNum (Fin (23 / 10)), JNum (Fin (31 / 2)), JNum (Fin 45000),
                        JNum (Fin (16 / 5)), JNum (Fin 100)],
                   Row [JStr ''1.7'', JStr ''$12'', JStr ''30000 people'', Null,
                        JStr ''250.50'']]\<rparr>"

definition five_field_snapshot :: snapshot where
  "five_field_snapshot =
     \<lparr>totalCampaigns = JNum (Fin 2), totalRows = JNum (Fin 2),
      columnsFound = Some [Ctr, Cpm, Reach, Frequency, Cost],
      m_dataQuality = Some ''excellent'', avgCTR = Some (JStr ''2.00''),
      maxCTR = Some (JStr ''2.30''), minCTR = Some (JStr ''1.70''),
      avgCPM = Some (JStr ''15.50''), maxCPM = Some (JStr ''15.50''),
      minCPM = Some (JStr ''15.50''),
      totalReach = Some (JNum (Fin 75000)),
      avgReach = Some (JNum (Fin 37500)),
      avgFrequency = Some (JStr ''3.2''),
      totalCost = Some (JNum (Fin (701 / 2))),
      avgCost = Some (JStr ''175.25'')\<rparr>"

definition ctr_snapshot :: snapshot where
  "ctr_snapshot =
     \<lparr>totalCampaigns = JNum (Fin 5), totalRows = JNum (Fin 5),
      columnsFound = Some [Ctr], m_dataQuality = Some ''limited'',
      avgCTR = Some (JStr ''7.50''), maxCTR = Some (JStr ''10.00''),
      minCTR = Some (JStr ''5.00''),
      avgCPM = None, maxCPM = None, minCPM = None, totalReach = None, avgReach = None,
      avgFrequency = None, totalCost = None, avgCost = None\<rparr>"

definition barren_snapshot :: snapshot where
  "barren_snapshot =
     \<lparr>totalCampaigns = JNum (Fin 2), totalRows = JNum (Fin 2),
      columnsFound = Some [Ctr], m_dataQuality = Some ''limited'',
      avgCTR = None, maxCTR = None, minCTR = None,
      avgCPM = None, maxCPM = None, minCPM = None, totalReach = None, avgReach = None,
      avgFrequency = None, totalCost = None, avgCost = None\<rparr>"

definition scenario_snapshot :: snapshot where
  "scenario_snapshot =
     \<lparr>totalCampaigns = JNum (Fin 1), totalRows = JNum (Fin 1),
      columnsFound = Some [Channel, Ctr, Cpm, Reach, Clicks],
      m_dataQuality = Some ''excellent'',
      avgCTR = Some (JStr ''2.30''), maxCTR = Some (JStr ''2.30''),
      minCTR = Some (JStr ''2.30''),
      avgCPM = Some (JStr ''15.50''), maxCPM = Some (JStr ''15.50''),
      minCPM = Some (JStr ''15.50''),
      totalReach = Some (JNum (Fin 45000)), avgReach = Some (JNum (Fin 45000)),
      avgFrequency = None, totalCost = None, avgCost = None\<rparr>"


section \<open>Evaluation\<close>

text \<open>An upper-case ASCII letter is \<open>0x41\<close> to \<open>0x5A\<close>, and its lower-case letter differs
  in bit 5. This equation replaces the table lookup of \<^const>\<open>lower_char\<close> when a term is
  evaluated.\<close>

lemma lower_char_bits [code]:
  "lower_char (Char b0 b1 b2 b3 b4 b5 b6 b7) =
     (if \<not> b7 \<and> b6 \<and> \<not> b5 \<and> (b0 \<or> b1 \<or> b2 \<or> b3 \<or> b4) \<and> \<not> (b4 \<and> b3 \<and> (b2 \<or> (b1 \<and> b0)))
      then Char b0 b1 b2 b3 b4 True b6 b7
      else Char b0 b1 b2 b3 b4 b5 b6 b7)"
proof (cases "b7 \<or> \<not> b6 \<or> b5")
  case True
  then consider b7 | "\<not> b6" | b5 by blast
  then show ?thesis
    by cases (simp_all add: lower_char_def)
next
  case False
  then show ?thesis
    by (cases b0; cases b1; cases b2; cases b3; cases b4) (simp_all add: lower_char_def)
qed


section \<open>findColumnMatch returns the first matching pair\<close>

lemma find_map_comp: "find P (map g xs) = map_option g (find (P \<circ> g) xs)"
  by (induction xs) auto

lemma find_append_split:
  "find P (xs @ ys) = (case find P xs of None \<Rightarrow> find P ys | Some x \<Rightarrow> Some x)"
  by (induction xs) auto

lemma findIndex_from_find:
  "findIndex_from k P xs =
     (case find (\<lambda>i. P (xs ! i)) [0 ..< length xs] of None \<Rightarrow> - 1 | Some i \<Rightarrow> k + int i)"
proof (induction xs arbitrary: k)
  case Nil
  show ?case by simp
next
  case (Cons x xs)
  have upt: "[0 ..< length (x # xs)] = 0 # map Suc [0 ..< length xs]"
    by (simp add: upt_conv_Cons map_Suc_upt del: upt_Suc)
  show ?case
    by (simp only: upt) (simp add: Cons.IH find_map_comp o_def split: option.splits)
qed

lemma findIndex_find:
  "findIndex P xs =
     (case find (\<lambda>i. P (xs ! i)) [0 ..< length xs] of None \<Rightarrow> - 1 | Some i \<Rightarrow> int i)"
  by (simp add: findIndex_def findIndex_from_find split: option.splits)

lemma find_upt_less: "find Q [0 ..< n] = Some i \<Longrightarrow> i < n"
  by (auto simp: find_Some_iff)

lemma match_loop_first_pair:
  "match_loop hs (map normalize_header hs) f as =
     match_of_pair hs f (find (pair_matches hs) (List.product as [0 ..< length hs]))"
proof (induction as)
  case Nil
  show ?case by (simp add: match_of_pair_def)
next
  case (Cons a as)
  let ?Q = "\<lambda>i. header_matches (trim (toLowerCase a)) (map normalize_header hs ! i)"
  have inner: "find (pair_matches hs) (map (Pair a) [0 ..< length hs])
      = map_option (Pair a) (find ?Q [0 ..< length hs])"
    unfolding find_map_comp
    by (rule arg_cong [where f = "map_option (Pair a)"], rule find_cong)
       (auto simp: pair_matches_def)
  show ?case
  proof (cases "find ?Q [0 ..< length hs]")
    case None
    then show ?thesis
      using Cons.IH by (simp add: findIndex_find find_append_split inner)
  next
    case (Some i)
    then have "i < length hs" using find_upt_less by fastforce
    then show ?thesis
      using Some by (simp add: findIndex_find find_append_split inner match_of_pair_def header_at_def)
  qed
qed

lemma findColumnMatch_first_pair:
  "findColumnMatch hs f = match_of_pair hs f (first_pair hs f)"
  by (simp add: findColumnMatch_def first_pair_def match_loop_first_pair)


section \<open>What validateMediaData returns for a table with headers\<close>

lemma found_match_of_pair: "found (match_of_pair hs f p) \<longleftrightarrow> p \<noteq> None"
  by (auto simp: match_of_pair_def split: option.splits)

lemma found_iff_matchable: "found (findColumnMatch hs f) \<longleftrightarrow> matchable hs f"
proof -
  have "found (findColumnMatch hs f) \<longleftrightarrow>
        (\<exists>a \<in> set (COLUMN_MAPPINGS f). \<exists>i < length hs. pair_matches hs (a, i))"
    by (simp add: findColumnMatch_def match_loop_first_pair found_match_of_pair find_None_iff)
       fastforce
  also have "\<dots> \<longleftrightarrow> matchable hs f"
    unfolding matchable_def pair_matches_def fst_conv snd_conv
    by (metis in_set_conv_nth)
  finally show ?thesis .
qed

lemma fold_map_column:
  "fold (map_column hs) cs (fm, ms, fs) =
     ((\<lambda>c. if c \<in> set cs \<and> matchable hs c then Some (findColumnMatch hs c) else fm c),
      ms @ filter (\<lambda>c. \<not> matchable hs c) cs,
      fs @ filter (matchable hs) cs)"
proof (induction cs arbitrary: fm ms fs)
  case Nil
  show ?case by simp
next
  case (Cons c cs)
  have step: "map_column hs c (fm, ms, fs) =
      (if matchable hs c then (fm(c \<mapsto> findColumnMatch hs c), ms, fs @ [c])
       else (fm, ms @ [c], fs))"
    by (simp add: map_column_def found_iff_matchable Let_def)
  show ?case
    by (auto simp: step Cons.IH fun_eq_iff)
qed

lemma validate_with_headers:
  assumes "headers d = Some hs" and "hs \<noteq> []"
  shows "foundColumns (validateMediaData d) = Some (filter (matchable hs) idealColumns)"
    and "missingColumns (validateMediaData d) = filter (\<lambda>c. \<not> matchable hs c) idealColumns"
    and "isValid (validateMediaData d) \<longleftrightarrow> 2 \<le> matched_count hs"
    and "dataQuality (validateMediaData d) =
           Some (if 2 \<le> matched_count hs
                 then (if 4 \<le> matched_count hs then ''excellent'' else ''good'')
                 else ''limited'')"
    and "columnMappings (validateMediaData d) =
           (\<lambda>c. if c \<in> set idealColumns \<and> matchable hs c
                then Some (findColumnMatch hs c) else None)"
  using assms
  by (simp_all add: validateMediaData_def fold_map_column matched_count_def Let_def)


section \<open>When calculateBasicMetrics returns\<close>

lemma catch_block_throws: "catch_block rs e = Inl ReferenceError"
  by (simp add: catch_block_def catch_scope_def)

lemma calculateBasicMetrics_rows:
  assumes "rows d = Some rs" and "rs \<noteq> []"
  shows "calculateBasicMetrics d =
           (case try_block (validateMediaData d) (columnMappings (validateMediaData d)) rs of
              Inl e \<Rightarrow> Inl ReferenceError
            | Inr m \<Rightarrow> Inr (Metrics m))"
  using assms
  by (simp add: calculateBasicMetrics_def Let_def catch_block_throws split: sum.splits)

text \<open>The object of the catch block is never returned.\<close>

lemma never_degraded: "calculateBasicMetrics d \<noteq> Inr (Degraded n msg)"
  by (auto simp: calculateBasicMetrics_def Let_def catch_block_throws
      split: option.splits sum.splits)

lemma map_rows_arrays:
  "all_arrays rs \<Longrightarrow> \<exists>vs. map_rows (\<lambda>row. bind_err (cell_at row i) (\<lambda>c. Inr (parse c))) rs = Inr vs"
proof (induction rs)
  case Nil
  show ?case by simp
next
  case (Cons r rs)
  then obtain vs where "map_rows (\<lambda>row. bind_err (cell_at row i) (\<lambda>c. Inr (parse c))) rs = Inr vs"
    by (auto simp: all_arrays_def)
  moreover from Cons.prems obtain cs where "r = Row cs"
    by (cases r) (auto simp: all_arrays_def)
  ultimately show ?case by (simp add: bind_err_def)
qed

lemma column_values_arrays:
  "all_arrays rs \<Longrightarrow> \<exists>vs. column_values parse i rs = Inr vs"
  using map_rows_arrays [of rs i parse] by (auto simp: column_values_def bind_err_def)

lemma steps_arrays:
  assumes "all_arrays rs"
  shows "\<exists>b. ctr_step mp rs a = Inr b" "\<exists>b. cpm_step mp rs a = Inr b"
    "\<exists>b. reach_step mp rs a = Inr b" "\<exists>b. frequency_step mp rs a = Inr b"
    "\<exists>b. cost_step mp rs a = Inr b"
proof -
  show "\<exists>b. ctr_step mp rs a = Inr b"
    using column_values_arrays [OF assms, of parseFloat "index (the (mp Ctr))"]
    by (auto simp: ctr_step_def bind_err_def split: option.splits sum.splits)
  show "\<exists>b. cpm_step mp rs a = Inr b"
    using column_values_arrays [OF assms, of parseFloat "index (the (mp Cpm))"]
    by (auto simp: cpm_step_def bind_err_def split: option.splits sum.splits)
  show "\<exists>b. reach_step mp rs a = Inr b"
    using column_values_arrays [OF assms, of parseInt "index (the (mp Reach))"]
    by (auto simp: reach_step_def bind_err_def split: option.splits sum.splits)
  show "\<exists>b. frequency_step mp rs a = Inr b"
    using column_values_arrays [OF assms, of parseFloat "index (the (mp Frequency))"]
    by (auto simp: frequency_step_def bind_err_def split: option.splits sum.splits)
  show "\<exists>b. cost_step mp rs a = Inr b"
    using column_values_arrays [OF assms, of parseFloat "index (the (mp Cost))"]
    by (auto simp: cost_step_def bind_err_def split: option.splits sum.splits)
qed

lemma try_block_arrays:
  assumes "all_arrays rs"
  shows "\<exists>m. try_block v mp rs = Inr m"
proof -
  obtain m1 where 1: "ctr_step mp rs (initial_metrics v rs) = Inr m1"
    using steps_arrays(1) [OF assms] by blast
  obtain m2 where 2: "cpm_step mp rs m1 = Inr m2"
    using steps_arrays(2) [OF assms] by blast
  obtain m3 where 3: "reach_step mp rs m2 = Inr m3"
    using steps_arrays(3) [OF assms] by blast
  obtain m4 where 4: "frequency_step mp rs m3 = Inr m4"
    using steps_arrays(4) [OF assms] by blast
  obtain m5 where 5: "cost_step mp rs m4 = Inr m5"
    using steps_arrays(5) [OF assms] by blast
  show ?thesis by (simp add: try_block_def bind_err_def 1 2 3 4 5)
qed

lemma calculateBasicMetrics_arrays:
  assumes "rows d = Some rs" and "all_arrays rs"
  shows "\<exists>r. calculateBasicMetrics d = Inr r"
proof (cases "rs = []")
  case True
  then show ?thesis using assms by (simp add: calculateBasicMetrics_def)
next
  case False
  obtain m where "try_block (validateMediaData d) (columnMappings (validateMediaData d)) rs = Inr m"
    using try_block_arrays [OF assms(2)] by blast
  then show ?thesis
    by (simp add: calculateBasicMetrics_rows [OF assms(1) False])
qed


section \<open>The statistics of a snapshot\<close>

lemma keeps_is_positive: "keeps v \<longleftrightarrow> is_positive v"
  by (cases v) (simp_all add: keeps_def isNaN_def)

lemma map_rows_cells:
  "map_rows (\<lambda>row. bind_err (cell_at row i) (\<lambda>c. Inr (parse c))) rs = Inr vs
   \<Longrightarrow> vs = map parse (column_cells i rs)"
proof (induction rs arbitrary: vs)
  case Nil
  then show ?case by (simp add: column_cells_def)
next
  case (Cons r rs)
  then show ?case
    by (cases r) (auto simp: column_cells_def bind_err_def split: sum.splits)
qed

lemma column_values_survivors:
  assumes "column_values parse i rs = Inr vs"
  shows "vs = survivors parse i rs"
proof -
  from assms obtain ws
    where ws: "map_rows (\<lambda>row. bind_err (cell_at row i) (\<lambda>c. Inr (parse c))) rs = Inr ws"
      and vs: "vs = filter keeps ws"
    by (auto simp: column_values_def bind_err_def split: sum.splits)
  have "ws = map parse (column_cells i rs)" using ws by (rule map_rows_cells)
  with vs show ?thesis
    by (simp add: survivors_def filter_map o_def keeps_is_positive [abs_def])
qed

lemma ctr_step_keys:
  assumes "ctr_step mp rs a = Inr b"
  shows "ctr_keys b = (case mp Ctr of None \<Rightarrow> ctr_keys a
           | Some mt \<Rightarrow> if survivors parseFloat (index mt) rs = [] then ctr_keys a
                        else rate_stats (survivors parseFloat (index mt) rs))"
    and "cpm_keys b = cpm_keys a" and "reach_keys b = reach_keys a"
    and "frequency_keys b = frequency_keys a" and "cost_keys b = cost_keys a"
  using assms
  by (auto simp: ctr_step_def bind_err_def ctr_keys_def cpm_keys_def reach_keys_def
        frequency_keys_def cost_keys_def rate_stats_def mean_of_def
      split: option.splits sum.splits if_splits dest!: column_values_survivors)

lemma cpm_step_keys:
  assumes "cpm_step mp rs a = Inr b"
  shows "cpm_keys b = (case mp Cpm of None \<Rightarrow> cpm_keys a
           | Some mt \<Rightarrow> if survivors parseFloat (index mt) rs = [] then cpm_keys a
                        else rate_stats (survivors parseFloat (index mt) rs))"
    and "ctr_keys b = ctr_keys a" and "reach_keys b = reach_keys a"
    and "frequency_keys b = frequency_keys a" and "cost_keys b = cost_keys a"
  using assms
  by (auto simp: cpm_step_def bind_err_def ctr_keys_def cpm_keys_def reach_keys_def
        frequency_keys_def cost_keys_def rate_stats_def mean_of_def
      split: option.splits sum.splits if_splits dest!: column_values_survivors)

lemma reach_step_keys:
  assumes "reach_step mp rs a = Inr b"
  shows "reach_keys b = (case mp Reach of None \<Rightarrow> reach_keys a
           | Some mt \<Rightarrow> if survivors parseInt (index mt) rs = [] then reach_keys a
                        else reach_stats (survivors parseInt (index mt) rs))"
    and "ctr_keys b = ctr_keys a" and "cpm_keys b = cpm_keys a"
    and "frequency_keys b = frequency_keys a" and "cost_keys b = cost_keys a"
  using assms
  by (auto simp: reach_step_def bind_err_def ctr_keys_def cpm_keys_def reach_keys_def
        frequency_keys_def cost_keys_def reach_stats_def mean_of_def
      split: option.splits sum.splits if_splits dest!: column_values_survivors)

lemma frequency_step_keys:
  assumes "frequency_step mp rs a = Inr b"
  shows "frequency_keys b = (case mp Frequency of None \<Rightarrow> frequency_keys a
           | Some mt \<Rightarrow> if survivors parseFloat (index mt) rs = [] then frequency_keys a
                        else frequency_stats (survivors parseFloat (index mt) rs))"
    and "ctr_keys b = ctr_keys a" and "cpm_keys b = cpm_keys a"
    and "reach_keys b = reach_keys a" and "cost_keys b = cost_keys a"
  using assms
  by (auto simp: frequency_step_def bind_err_def ctr_keys_def cpm_keys_def reach_keys_def
        frequency_keys_def cost_keys_def frequency_stats_def mean_of_def
      split: option.splits sum.splits if_splits dest!: column_values_survivors)

lemma cost_step_keys:
  assumes "cost_step mp rs a = Inr b"
  shows "cost_keys b = (case mp Cost of None \<Rightarrow> cost_keys a
           | Some mt \<Rightarrow> if survivors parseFloat (index mt) rs = [] then cost_keys a
                        else cost_stats (survivors parseFloat (index mt) rs))"
    and "ctr_keys b = ctr_keys a" and "cpm_keys b = cpm_keys a"
    and "reach_keys b = reach_keys a" and "frequency_keys b = frequency_keys a"
  using assms
  by (auto simp: cost_step_def bind_err_def ctr_keys_def cpm_keys_def reach_keys_def
        frequency_keys_def cost_keys_def cost_stats_def mean_of_def
      split: option.splits sum.splits if_splits dest!: column_values_survivors)

lemma initial_keys:
  "ctr_keys (initial_metrics v rs) = (None, None, None)"
  "cpm_keys (initial_metrics v rs) = (None, None, None)"
  "reach_keys (initial_metrics v rs) = (None, None)"
  "frequency_keys (initial_metrics v rs) = None"
  "cost_keys (initial_metrics v rs) = (None, None)"
  by (simp_all add: initial_metrics_def ctr_keys_def cpm_keys_def reach_keys_def
        frequency_keys_def cost_keys_def)

lemma try_block_steps:
  assumes "try_block v mp rs = Inr m"
  obtains m1 m2 m3 m4
  where "ctr_step mp rs (initial_metrics v rs) = Inr m1"
    and "cpm_step mp rs m1 = Inr m2"
    and "reach_step mp rs m2 = Inr m3"
    and "frequency_step mp rs m3 = Inr m4"
    and "cost_step mp rs m4 = Inr m"
  using assms by (auto simp: try_block_def bind_err_def split: sum.splits)

lemma try_block_keys:
  assumes "try_block v mp rs = Inr m"
  shows "ctr_keys m = (case mp Ctr of None \<Rightarrow> (None, None, None)
           | Some mt \<Rightarrow> rate_stats (survivors parseFloat (index mt) rs))"
    and "cpm_keys m = (case mp Cpm of None \<Rightarrow> (None, None, None)
           | Some mt \<Rightarrow> rate_stats (survivors parseFloat (index mt) rs))"
    and "reach_keys m = (case mp Reach of None \<Rightarrow> (None, None)
           | Some mt \<Rightarrow> reach_stats (survivors parseInt (index mt) rs))"
    and "frequency_keys m = (case mp Frequency of None \<Rightarrow> None
           | Some mt \<Rightarrow> frequency_stats (survivors parseFloat (index mt) rs))"
    and "cost_keys m = (case mp Cost of None \<Rightarrow> (None, None)
           | Some mt \<Rightarrow> cost_stats (survivors parseFloat (index mt) rs))"
proof -
  from assms obtain m1 m2 m3 m4
    where 1: "ctr_step mp rs (initial_metrics v rs) = Inr m1"
      and 2: "cpm_step mp rs m1 = Inr m2"
      and 3: "reach_step mp rs m2 = Inr m3"
      and 4: "frequency_step mp rs m3 = Inr m4"
      and 5: "cost_step mp rs m4 = Inr m"
    by (rule try_block_steps)
  note k1 = ctr_step_keys [OF 1] and k2 = cpm_step_keys [OF 2] and k3 = reach_step_keys [OF 3]
    and k4 = frequency_step_keys [OF 4] and k5 = cost_step_keys [OF 5]
  show "ctr_keys m = (case mp Ctr of None \<Rightarrow> (None, None, None)
           | Some mt \<Rightarrow> rate_stats (survivors parseFloat (index mt) rs))"
    by (simp add: k5(2) k4(2) k3(2) k2(2) k1(1) initial_keys rate_stats_def split: option.splits)
  show "cpm_keys m = (case mp Cpm of None \<Rightarrow> (None, None, None)
           | Some mt \<Rightarrow> rate_stats (survivors parseFloat (index mt) rs))"
    by (simp add: k5(3) k4(3) k3(3) k2(1) k1(2) initial_keys rate_stats_def split: option.splits)
  show "reach_keys m = (case mp Reach of None \<Rightarrow> (None, None)
           | Some mt \<Rightarrow> reach_stats (survivors parseInt (index mt) rs))"
    by (simp add: k5(4) k4(4) k3(1) k2(3) k1(3) initial_keys reach_stats_def split: option.splits)
  show "frequency_keys m = (case mp Frequency of None \<Rightarrow> None
           | Some mt \<Rightarrow> frequency_stats (survivors parseFloat (index mt) rs))"
    by (simp add: k5(5) k4(1) k3(4) k2(4) k1(4) initial_keys frequency_stats_def split: option.splits)
  show "cost_keys m = (case mp Cost of None \<Rightarrow> (None, None)
           | Some mt \<Rightarrow> cost_stats (survivors parseFloat (index mt) rs))"
    by (simp add: k5(1) k4(5) k3(5) k2(5) k1(5) initial_keys cost_stats_def split: option.splits)
qed

lemma steps_base_keys:
  "ctr_step mp rs a = Inr b \<Longrightarrow> base_keys b = base_keys a"
  "cpm_step mp rs a = Inr b \<Longrightarrow> base_keys b = base_keys a"
  "reach_step mp rs a = Inr b \<Longrightarrow> base_keys b = base_keys a"
  "frequency_step mp rs a = Inr b \<Longrightarrow> base_keys b = base_keys a"
  "cost_step mp rs a = Inr b \<Longrightarrow> base_keys b = base_keys a"
  by (auto simp: ctr_step_def cpm_step_def reach_step_def frequency_step_def cost_step_def
        bind_err_def base_keys_def split: option.splits sum.splits if_splits)

lemma try_block_base_keys:
  assumes "try_block v mp rs = Inr m"
  shows "base_keys m = (JNum (count_of rs), JNum (count_of rs), foundColumns v, dataQuality v)"
proof -
  from assms obtain m1 m2 m3 m4
    where 1: "ctr_step mp rs (initial_metrics v rs) = Inr m1"
      and 2: "cpm_step mp rs m1 = Inr m2"
      and 3: "reach_step mp rs m2 = Inr m3"
      and 4: "frequency_step mp rs m3 = Inr m4"
      and 5: "cost_step mp rs m4 = Inr m"
    by (rule try_block_steps)
  have "base_keys m = base_keys (initial_metrics v rs)"
    by (simp add: steps_base_keys(5) [OF 5] steps_base_keys(4) [OF 4] steps_base_keys(3) [OF 3]
          steps_base_keys(2) [OF 2] steps_base_keys(1) [OF 1])
  then show ?thesis by (simp add: base_keys_def initial_metrics_def)
qed

lemma metrics_try_block:
  assumes "calculateBasicMetrics d = Inr (Metrics m)"
  obtains rs where "rows d = Some rs" and "rs \<noteq> []"
    and "try_block (validateMediaData d) (columnMappings (validateMediaData d)) rs = Inr m"
  using assms
  by (auto simp: calculateBasicMetrics_def Let_def catch_block_throws
      split: option.splits if_splits sum.splits)


section \<open>Sum, average, maximum and minimum of finite values\<close>

lemma survivors_positive: "v \<in> set (survivors parse i rs) \<Longrightarrow> is_positive v"
  by (auto simp: survivors_def)

lemma foldl_add_finite: "foldl js_add (Fin a) (map Fin qs) = Fin (a + sum_list qs)"
  by (induction qs arbitrary: a) (simp_all add: add.assoc)

lemma sum_values_finite: "sum_values (map Fin qs) = Fin (sum_list qs)"
  by (simp add: sum_values_def foldl_add_finite)

lemma mean_of_finite:
  "qs \<noteq> [] \<Longrightarrow> mean_of (map Fin qs) = Fin (sum_list qs / of_nat (length qs))"
  by (simp add: mean_of_def sum_values_finite count_of_def)

lemma max_step_finite: "max_step (Fin a) (Fin q) = Fin (max a q)"
  by (simp add: max_step_def isNaN_def max_def)

lemma min_step_finite: "min_step (Fin a) (Fin q) = Fin (min a q)"
  by (simp add: min_step_def isNaN_def min_def)

lemma foldl_max_finite:
  "foldl max_step (Fin a) (map Fin qs) = Fin (Max (insert a (set qs)))"
proof (induction qs arbitrary: a)
  case Nil
  show ?case by simp
next
  case (Cons q qs)
  have "Max (insert (max a q) (set qs)) = Max (insert a (insert q (set qs)))"
    by (cases "set qs = {}") (simp_all add: max.assoc)
  then show ?case
    by (simp add: Cons.IH max_step_finite)
qed

lemma foldl_min_finite:
  "foldl min_step (Fin a) (map Fin qs) = Fin (Min (insert a (set qs)))"
proof (induction qs arbitrary: a)
  case Nil
  show ?case by simp
next
  case (Cons q qs)
  have "Min (insert (min a q) (set qs)) = Min (insert a (insert q (set qs)))"
    by (cases "set qs = {}") (simp_all add: min.assoc)
  then show ?case
    by (simp add: Cons.IH min_step_finite)
qed

lemma Math_max_finite: "qs \<noteq> [] \<Longrightarrow> Math_max (map Fin qs) = Fin (Max (set qs))"
  by (cases qs) (simp_all add: Math_max_def max_step_def isNaN_def foldl_max_finite)

lemma Math_min_finite: "qs \<noteq> [] \<Longrightarrow> Math_min (map Fin qs) = Fin (Min (set qs))"
  by (cases qs) (simp_all add: Math_min_def min_step_def isNaN_def foldl_min_finite)


section \<open>Claims about validateMediaData\<close>

text \<open>
  Claim C8. For a table whose header list is empty or absent, \<^verbatim>\<open>validateMediaData\<close>
  returns a verdict (the function of the model is total: nothing is thrown) with
  \<^verbatim>\<open>isValid\<close> false, an empty \<^verbatim>\<open>columnMappings\<close> object and the readable message that no
  headers were found.
\<close>

theorem validate_no_headers:
  assumes "headers data = None \<or> headers data = Some []"
  shows "isValid (validateMediaData data) = False
       \<and> columnMappings (validateMediaData data) = Map.empty
       \<and> suggestions (validateMediaData data) =
           ''No headers found in the CSV file. Please ensure the first row contains column headers.''"
  using assms by (auto simp: validateMediaData_def no_headers_verdict_def)

theorem validate_no_headers_witness:
  "(headers \<lparr>headers = Some [], rows = Some [Row [JStr ''x'']]\<rparr> = None
      \<or> headers \<lparr>headers = Some [], rows = Some [Row [JStr ''x'']]\<rparr> = Some [])
   \<and> isValid (validateMediaData \<lparr>headers = Some [], rows = Some [Row [JStr ''x'']]\<rparr>) = False
   \<and> columnMappings (validateMediaData \<lparr>headers = Some [], rows = Some [Row [JStr ''x'']]\<rparr>) = Map.empty
   \<and> suggestions (validateMediaData \<lparr>headers = Some [], rows = Some [Row [JStr ''x'']]\<rparr>) =
        ''No headers found in the CSV file. Please ensure the first row contains column headers.''"
  using validate_no_headers [of "\<lparr>headers = Some [], rows = Some [Row [JStr ''x'']]\<rparr>"]
  by simp

text \<open>
  Claim C1, amended. For a table with a non-empty header list whose headers match exactly
  \<open>k\<close> of the eight fields the validator tries, \<^verbatim>\<open>isValid\<close> holds iff \<open>k \<ge> 2\<close>, and
  \<^verbatim>\<open>dataQuality\<close> is \<^verbatim>\<open>'excellent'\<close> iff \<open>k \<ge> 4\<close>, \<^verbatim>\<open>'good'\<close> iff \<open>2 \<le> k \<le> 3\<close> and
  \<^verbatim>\<open>'limited'\<close> iff \<open>k < 2\<close>. As stated for every table the claim fails: with an empty
  header list \<open>k = 0\<close>, and the early return gives a verdict without \<^verbatim>\<open>dataQuality\<close>.
\<close>

theorem validity_threshold:
  assumes "headers d = Some hs" and "hs \<noteq> []"
  shows "(isValid (validateMediaData d) \<longleftrightarrow> 2 \<le> matched_count hs)
       \<and> (dataQuality (validateMediaData d) = Some ''excellent'' \<longleftrightarrow> 4 \<le> matched_count hs)
       \<and> (dataQuality (validateMediaData d) = Some ''good''
            \<longleftrightarrow> 2 \<le> matched_count hs \<and> matched_count hs \<le> 3)
       \<and> (dataQuality (validateMediaData d) = Some ''limited'' \<longleftrightarrow> matched_count hs < 2)"
  using validate_with_headers(3,4) [OF assms] by auto

theorem validity_threshold_witness:
  "headers \<lparr>headers = Some [''Platform'', ''Click-Through Rate'', ''CPM ($)'', ''Total Reach''],
            rows = Some []\<rparr>
     = Some [''Platform'', ''Click-Through Rate'', ''CPM ($)'', ''Total Reach'']
   \<and> [''Platform'', ''Click-Through Rate'', ''CPM ($)'', ''Total Reach''] \<noteq> []
   \<and> matched_count [''Platform'', ''Click-Through Rate'', ''CPM ($)'', ''Total Reach''] = 5
   \<and> isValid (validateMediaData
         \<lparr>headers = Some [''Platform'', ''Click-Through Rate'', ''CPM ($)'', ''Total Reach''],
          rows = Some []\<rparr>)
   \<and> dataQuality (validateMediaData
         \<lparr>headers = Some [''Platform'', ''Click-Through Rate'', ''CPM ($)'', ''Total Reach''],
          rows = Some []\<rparr>) = Some ''excellent''"
proof -
  let ?hs = "[''Platform'', ''Click-Through Rate'', ''CPM ($)'', ''Total Reach'']"
  let ?d = "\<lparr>headers = Some ?hs, rows = Some []\<rparr>"
  have h: "headers ?d = Some ?hs" "?hs \<noteq> []" by simp_all
  have k: "matched_count ?hs = 5" by code_simp
  show ?thesis using validity_threshold [OF h] h k by simp
qed

theorem validity_threshold_counterexample:
  "\<not> (dataQuality (validateMediaData \<lparr>headers = Some [], rows = Some []\<rparr>) = Some ''limited''
        \<longleftrightarrow> matched_count [] < 2)"
  by code_simp

text \<open>
  Claim C2, amended. For a table with a non-empty header list, \<^verbatim>\<open>foundColumns\<close> and
  \<^verbatim>\<open>missingColumns\<close> partition the eight fields of \<^verbatim>\<open>idealColumns\<close>: each of them is in
  exactly one of the two lists, in \<^verbatim>\<open>foundColumns\<close> iff the matcher finds it. The
  catalogue has four more fields (budget, demographic, geography, date), for which the
  matcher is not run and which are in neither list; so the two lists do not partition
  the whole catalogue, as the header \<^verbatim>\<open>budget\<close> shows.
\<close>

theorem found_missing_partition:
  assumes "headers d = Some hs" and "hs \<noteq> []"
  shows "\<exists>fs. foundColumns (validateMediaData d) = Some fs
           \<and> set fs \<union> set (missingColumns (validateMediaData d)) = set idealColumns
           \<and> set fs \<inter> set (missingColumns (validateMediaData d)) = {}
           \<and> distinct (fs @ missingColumns (validateMediaData d))
           \<and> set fs = {f \<in> set idealColumns. found (findColumnMatch hs f)}
           \<and> set catalogue_fields - set idealColumns = {Budget, Demographic, Geography, Date}"
proof -
  have d: "distinct idealColumns" by (simp add: idealColumns_def)
  have c: "set catalogue_fields - set idealColumns = {Budget, Demographic, Geography, Date}"
    by (auto simp: catalogue_fields_def idealColumns_def)
  show ?thesis
    using validate_with_headers(1,2) [OF assms] d c
    by (auto simp: found_iff_matchable)
qed

theorem found_missing_partition_witness:
  "headers \<lparr>headers = Some [''budget''], rows = Some []\<rparr> = Some [''budget'']
   \<and> [''budget''] \<noteq> []
   \<and> foundColumns (validateMediaData \<lparr>headers = Some [''budget''], rows = Some []\<rparr>) = Some [Cost]
   \<and> set [Cost] \<union> set (missingColumns (validateMediaData \<lparr>headers = Some [''budget''], rows = Some []\<rparr>))
       = set idealColumns"
proof -
  let ?d = "\<lparr>headers = Some [''budget''], rows = Some []\<rparr>"
  have h: "headers ?d = Some [''budget'']" "[''budget''] \<noteq> []" by simp_all
  have f: "foundColumns (validateMediaData ?d) = Some [Cost]" by code_simp
  show ?thesis using found_missing_partition [OF h] h f by auto
qed

theorem found_missing_partition_counterexample:
  "Budget \<in> set catalogue_fields
   \<and> foundColumns (validateMediaData \<lparr>headers = Some [''budget''], rows = Some []\<rparr>) = Some [Cost]
   \<and> Budget \<notin> set [Cost]
   \<and> Budget \<notin> set (missingColumns (validateMediaData \<lparr>headers = Some [''budget''], rows = Some []\<rparr>))"
  by code_simp

text \<open>
  Claim C3. For every header list and every field, \<^verbatim>\<open>findColumnMatch\<close> returns the match
  of the first pair of an alias and a header that satisfies the predicate, where the
  aliases are the outer loop in catalogue order and the headers the inner loop in their
  order. For the headers \<^verbatim>\<open>impression_cost\<close>, \<^verbatim>\<open>cpm_cost\<close> and the field cpm the first
  alias \<^verbatim>\<open>cpm\<close> matches the second header, which is returned, although the first header
  matches the later alias \<^verbatim>\<open>impression_cost\<close>.
\<close>

theorem alias_order_precedence:
  "findColumnMatch hs f = match_of_pair hs f (first_pair hs f)
   \<and> first_pair [''impression_cost'', ''cpm_cost''] Cpm = Some (''cpm'', 1)
   \<and> findColumnMatch [''impression_cost'', ''cpm_cost''] Cpm
       = \<lparr>found = True, originalName = Some ''cpm_cost'', index = 1, mappedTo = Cpm\<rparr>
   \<and> pair_matches [''impression_cost'', ''cpm_cost''] (''impression_cost'', 0)"
proof -
  have "first_pair [''impression_cost'', ''cpm_cost''] Cpm = Some (''cpm'', 1)" by code_simp
  moreover have "findColumnMatch [''impression_cost'', ''cpm_cost''] Cpm
       = \<lparr>found = True, originalName = Some ''cpm_cost'', index = 1, mappedTo = Cpm\<rparr>"
    by code_simp
  moreover have "pair_matches [''impression_cost'', ''cpm_cost''] (''impression_cost'', 0)"
    by code_simp
  ultimately show ?thesis
    by (simp only: findColumnMatch_first_pair simp_thms)
qed


section \<open>Claims about calculateBasicMetrics and prepareDataForAI\<close>

text \<open>
  Claim C7. For a table whose \<^verbatim>\<open>rows\<close> list is empty or absent, whatever its headers,
  \<^verbatim>\<open>calculateBasicMetrics\<close> returns \<^verbatim>\<open>null\<close>: it throws nothing and builds no snapshot.
\<close>

theorem no_rows_no_data:
  assumes "rows d = None \<or> rows d = Some []"
  shows "calculateBasicMetrics d = Inr NoData"
  using assms by (auto simp: calculateBasicMetrics_def)

theorem no_rows_no_data_witness:
  "(rows \<lparr>headers = Some [''ctr'', ''cpm''], rows = Some []\<rparr> = None
      \<or> rows \<lparr>headers = Some [''ctr'', ''cpm''], rows = Some []\<rparr> = Some [])
   \<and> calculateBasicMetrics \<lparr>headers = Some [''ctr'', ''cpm''], rows = Some []\<rparr> = Inr NoData"
  using no_rows_no_data [of "\<lparr>headers = Some [''ctr'', ''cpm''], rows = Some []\<rparr>"]
  by simp

text \<open>
  Claim C4 asks that \<^verbatim>\<open>calculateBasicMetrics\<close> never lets an exception reach the caller
  and that its catch block returns the row count with an error marker. The source does
  not do so: the catch block reads \<^verbatim>\<open>totalRows\<close>, which is declared inside the try block,
  and throws a \<^verbatim>\<open>ReferenceError\<close> itself. For the table with the header \<^verbatim>\<open>ctr\<close> and one row
  that is \<^verbatim>\<open>null\<close>, the try block throws a \<^verbatim>\<open>TypeError\<close> and the call ends with the
  \<^verbatim>\<open>ReferenceError\<close>.
\<close>

theorem catch_block_raises:
  "try_block (validateMediaData \<lparr>headers = Some [''ctr''], rows = Some [NoRow]\<rparr>)
     (columnMappings (validateMediaData \<lparr>headers = Some [''ctr''], rows = Some [NoRow]\<rparr>))
     [NoRow] = Inl TypeError
   \<and> calculateBasicMetrics \<lparr>headers = Some [''ctr''], rows = Some [NoRow]\<rparr> = Inl ReferenceError"
  by code_simp

text \<open>
  Claim C9. For a table with rows, the payload of \<^verbatim>\<open>prepareDataForAI\<close> has as
  \<^verbatim>\<open>sampleRows\<close> the first \<open>min (|rows|, 10)\<close> rows in order, never more than ten, and as
  \<^verbatim>\<open>totalRows\<close> the number of all rows; and the payload is returned whenever every row is
  an array.
\<close>

theorem sample_is_first_ten:
  assumes "rows d = Some rs"
  shows "(\<forall>p. prepareDataForAI d = Inr p \<longrightarrow>
            sampleRows p = take 10 rs \<and> length (sampleRows p) = min (length rs) 10
            \<and> length (sampleRows p) \<le> 10 \<and> p_totalRows p = length rs)
       \<and> (all_arrays rs \<longrightarrow> (\<exists>p. prepareDataForAI d = Inr p))"
proof -
  have "\<exists>p. prepareDataForAI d = Inr p" if "all_arrays rs"
    using calculateBasicMetrics_arrays [OF assms that]
    by (auto simp: prepareDataForAI_def assms bind_err_def Let_def)
  moreover have "sampleRows p = take 10 rs \<and> length (sampleRows p) = min (length rs) 10
            \<and> length (sampleRows p) \<le> 10 \<and> p_totalRows p = length rs"
    if "prepareDataForAI d = Inr p" for p
    using that by (auto simp: prepareDataForAI_def assms bind_err_def Let_def split: sum.splits)
  ultimately show ?thesis by blast
qed

theorem sample_is_first_ten_witness:
  "rows \<lparr>headers = Some [''ctr''],
         rows = Some [Row [JNum (Fin 1)], Row [JNum (Fin 2)], Row [JNum (Fin 3)], Row [JNum (Fin 4)],
                      Row [JNum (Fin 5)], Row [JNum (Fin 6)], Row [JNum (Fin 7)], Row [JNum (Fin 8)],
                      Row [JNum (Fin 9)], Row [JNum (Fin 10)], Row [JNum (Fin 11)]]\<rparr>
     = Some [Row [JNum (Fin 1)], Row [JNum (Fin 2)], Row [JNum (Fin 3)], Row [JNum (Fin 4)],
             Row [JNum (Fin 5)], Row [JNum (Fin 6)], Row [JNum (Fin 7)], Row [JNum (Fin 8)],
             Row [JNum (Fin 9)], Row [JNum (Fin 10)], Row [JNum (Fin 11)]]
   \<and> all_arrays [Row [JNum (Fin 1)], Row [JNum (Fin 2)], Row [JNum (Fin 3)], Row [JNum (Fin 4)],
             Row [JNum (Fin 5)], Row [JNum (Fin 6)], Row [JNum (Fin 7)], Row [JNum (Fin 8)],
             Row [JNum (Fin 9)], Row [JNum (Fin 10)], Row [JNum (Fin 11)]]
   \<and> (\<exists>p. prepareDataForAI \<lparr>headers = Some [''ctr''],
         rows = Some [Row [JNum (Fin 1)], Row [JNum (Fin 2)], Row [JNum (Fin 3)], Row [JNum (Fin 4)],
                      Row [JNum (Fin 5)], Row [JNum (Fin 6)], Row [JNum (Fin 7)], Row [JNum (Fin 8)],
                      Row [JNum (Fin 9)], Row [JNum (Fin 10)], Row [JNum (Fin 11)]]\<rparr> = Inr p
        \<and> sampleRows p =
            [Row [JNum (Fin 1)], Row [JNum (Fin 2)], Row [JNum (Fin 3)], Row [JNum (Fin 4)],
             Row [JNum (Fin 5)], Row [JNum (Fin 6)], Row [JNum (Fin 7)], Row [JNum (Fin 8)],
             Row [JNum (Fin 9)], Row [JNum (Fin 10)]]
        \<and> p_totalRows p = 11)"
proof -
  let ?rs = "[Row [JNum (Fin 1)], Row [JNum (Fin 2)], Row [JNum (Fin 3)], Row [JNum (Fin 4)],
             Row [JNum (Fin 5)], Row [JNum (Fin 6)], Row [JNum (Fin 7)], Row [JNum (Fin 8)],
             Row [JNum (Fin 9)], Row [JNum (Fin 10)], Row [JNum (Fin 11)]]"
  let ?d = "\<lparr>headers = Some [''ctr''], rows = Some ?rs\<rparr>"
  have r: "rows ?d = Some ?rs" by simp
  have a: "all_arrays ?rs" by (simp add: all_arrays_def)
  from sample_is_first_ten [OF r] a obtain p where p: "prepareDataForAI ?d = Inr p" by blast
  with sample_is_first_ten [OF r] have "sampleRows p = take 10 ?rs \<and> p_totalRows p = length ?rs"
    by blast
  with p r a show ?thesis by simp
qed

text \<open>
  Claim C5. In a snapshot, the statistics of each of the numeric fields ctr, cpm, reach,
  frequency and cost that is matched are computed over exactly the cells of its column
  that parse as a number strictly greater than zero, and when no cell survives the keys
  of the field are left out. For a ctr column with the values 5, -3, \<^verbatim>\<open>"abc"\<close>, 0 and 10
  the survivors are 5 and 10, with average 7.5, minimum 5 and maximum 10.
\<close>

theorem positive_cells_only:
  assumes "calculateBasicMetrics d = Inr (Metrics m)" and "rows d = Some rs"
  shows "(\<forall>mt. columnMappings (validateMediaData d) Ctr = Some mt \<longrightarrow>
            ctr_keys m = rate_stats (survivors parseFloat (index mt) rs))
       \<and> (\<forall>mt. columnMappings (validateMediaData d) Cpm = Some mt \<longrightarrow>
            cpm_keys m = rate_stats (survivors parseFloat (index mt) rs))
       \<and> (\<forall>mt. columnMappings (validateMediaData d) Reach = Some mt \<longrightarrow>
            reach_keys m = reach_stats (survivors parseInt (index mt) rs))
       \<and> (\<forall>mt. columnMappings (validateMediaData d) Frequency = Some mt \<longrightarrow>
            frequency_keys m = frequency_stats (survivors parseFloat (index mt) rs))
       \<and> (\<forall>mt. columnMappings (validateMediaData d) Cost = Some mt \<longrightarrow>
            cost_keys m = cost_stats (survivors parseFloat (index mt) rs))
       \<and> rate_stats [] = (None, None, None) \<and> reach_stats [] = (None, None)
       \<and> frequency_stats [] = None \<and> cost_stats [] = (None, None)"
proof -
  from assms have t: "try_block (validateMediaData d) (columnMappings (validateMediaData d)) rs = Inr m"
    by (auto elim: metrics_try_block)
  show ?thesis
    by (simp add: try_block_keys [OF t] rate_stats_def reach_stats_def frequency_stats_def
          cost_stats_def)
qed

theorem positive_cells_only_witness:
  "calculateBasicMetrics ctr_table = Inr (Metrics ctr_snapshot)
   \<and> rows ctr_table = Some ctr_rows
   \<and> columnMappings (validateMediaData ctr_table) Ctr
       = Some \<lparr>found = True, originalName = Some ''ctr'', index = 0, mappedTo = Ctr\<rparr>
   \<and> survivors parseFloat 0 ctr_rows = [Fin 5, Fin 10]
   \<and> ctr_keys ctr_snapshot = rate_stats [Fin 5, Fin 10]
   \<and> rate_stats [Fin 5, Fin 10]
       = (Some (JStr ''7.50''), Some (JStr ''5.00''), Some (JStr ''10.00''))
   \<and> mean_of [Fin 5, Fin 10] = Fin (15 / 2)
   \<and> Math_min [Fin 5, Fin 10] = Fin 5 \<and> Math_max [Fin 5, Fin 10] = Fin 10
   \<and> calculateBasicMetrics barren_table = Inr (Metrics barren_snapshot)
   \<and> rows barren_table = Some barren_rows
   \<and> columnMappings (validateMediaData barren_table) Ctr
       = Some \<lparr>found = True, originalName = Some ''ctr'', index = 0, mappedTo = Ctr\<rparr>
   \<and> survivors parseFloat 0 barren_rows = []
   \<and> ctr_keys barren_snapshot = (None, None, None)"
proof -
  let ?mt = "\<lparr>found = True, originalName = Some ''ctr'', index = 0, mappedTo = Ctr\<rparr>"
  have r: "rows ctr_table = Some ctr_rows" "rows barren_table = Some barren_rows"
    by (simp_all add: ctr_table_def barren_table_def)
  have m: "calculateBasicMetrics ctr_table = Inr (Metrics ctr_snapshot)"
    "calculateBasicMetrics barren_table = Inr (Metrics barren_snapshot)"
    by code_simp+
  have c: "columnMappings (validateMediaData ctr_table) Ctr = Some ?mt"
    "columnMappings (validateMediaData barren_table) Ctr = Some ?mt"
    by code_simp+
  have s: "survivors parseFloat 0 ctr_rows = [Fin 5, Fin 10]"
    "survivors parseFloat 0 barren_rows = []"
    by code_simp+
  have v: "rate_stats [Fin 5, Fin 10]
             = (Some (JStr ''7.50''), Some (JStr ''5.00''), Some (JStr ''10.00''))"
    "mean_of [Fin 5, Fin 10] = Fin (15 / 2)"
    "Math_min [Fin 5, Fin 10] = Fin 5" "Math_max [Fin 5, Fin 10] = Fin 10"
    by code_simp+
  have k1: "ctr_keys ctr_snapshot = rate_stats [Fin 5, Fin 10]"
    using positive_cells_only [OF m(1) r(1)] c(1) s(1) by simp
  have k2: "ctr_keys barren_snapshot = (None, None, None)"
    using positive_cells_only [OF m(2) r(2)] c(2) s(2) by simp
  show ?thesis
    using r m c s v k1 k2 by simp
qed

text \<open>
  Claim C6, amended. For the headers \<^verbatim>\<open>Platform\<close>, \<^verbatim>\<open>Click-Through Rate\<close>, \<^verbatim>\<open>CPM ($)\<close>,
  \<^verbatim>\<open>Total Reach\<close> and the row \<^verbatim>\<open>Facebook\<close>, 2.3, 15.5, 45000, \<^verbatim>\<open>validateMediaData\<close> finds
  five fields: channel, ctr, cpm, reach and also clicks, whose alias \<^verbatim>\<open>click\<close> is contained
  in the header \<^verbatim>\<open>click-through_rate\<close>. The verdict is valid with quality
  \<^verbatim>\<open>'excellent'\<close>, and \<^verbatim>\<open>calculateBasicMetrics\<close> reports \<^verbatim>\<open>avgCTR\<close> \<^verbatim>\<open>"2.30"\<close>, \<^verbatim>\<open>avgCPM\<close>
  \<^verbatim>\<open>"15.50"\<close> and \<^verbatim>\<open>totalReach\<close> 45000.
\<close>

theorem scenario_five_fields:
  "foundColumns (validateMediaData scenario_table) = Some [Channel, Ctr, Cpm, Reach, Clicks]
   \<and> columnMappings (validateMediaData scenario_table) Clicks
       = Some \<lparr>found = True, originalName = Some ''Click-Through Rate'', index = 1,
               mappedTo = Clicks\<rparr>
   \<and> isValid (validateMediaData scenario_table) = True
   \<and> dataQuality (validateMediaData scenario_table) = Some ''excellent''
   \<and> calculateBasicMetrics scenario_table = Inr (Metrics scenario_snapshot)
   \<and> avgCTR scenario_snapshot = Some (JStr ''2.30'')
   \<and> avgCPM scenario_snapshot = Some (JStr ''15.50'')
   \<and> totalReach scenario_snapshot = Some (JNum (Fin 45000))"
proof -
  have "foundColumns (validateMediaData scenario_table) = Some [Channel, Ctr, Cpm, Reach, Clicks]"
    by code_simp
  moreover have "columnMappings (validateMediaData scenario_table) Clicks
       = Some \<lparr>found = True, originalName = Some ''Click-Through Rate'', index = 1,
               mappedTo = Clicks\<rparr>"
    by code_simp
  moreover have "isValid (validateMediaData scenario_table) = True" by code_simp
  moreover have "dataQuality (validateMediaData scenario_table) = Some ''excellent''"
    by code_simp
  moreover have "calculateBasicMetrics scenario_table = Inr (Metrics scenario_snapshot)"
    by code_simp
  ultimately show ?thesis by (simp add: scenario_snapshot_def)
qed

theorem scenario_counterexample:
  "foundColumns (validateMediaData scenario_table) \<noteq> Some [Channel, Ctr, Cpm, Reach]"
  by code_simp

text \<open>
  Claim C10. In every snapshot that \<^verbatim>\<open>calculateBasicMetrics\<close> returns from its try block,
  the keys \<^verbatim>\<open>avgCTR\<close>, \<^verbatim>\<open>minCTR\<close>, \<^verbatim>\<open>maxCTR\<close>, \<^verbatim>\<open>avgCPM\<close>, \<^verbatim>\<open>minCPM\<close>, \<^verbatim>\<open>maxCPM\<close>,
  \<^verbatim>\<open>avgFrequency\<close> and \<^verbatim>\<open>avgCost\<close>, where present, are strings printed by \<^verbatim>\<open>toFixed\<close>,
  while \<^verbatim>\<open>totalReach\<close>, \<^verbatim>\<open>avgReach\<close>, \<^verbatim>\<open>totalCost\<close>, \<^verbatim>\<open>totalRows\<close> and \<^verbatim>\<open>totalCampaigns\<close>
  are numbers.
\<close>

theorem snapshot_mixes_types:
  assumes "calculateBasicMetrics d = Inr (Metrics m)"
  shows "fixed_string 2 (avgCTR m) \<and> fixed_string 2 (minCTR m) \<and> fixed_string 2 (maxCTR m)
       \<and> fixed_string 2 (avgCPM m) \<and> fixed_string 2 (minCPM m) \<and> fixed_string 2 (maxCPM m)
       \<and> fixed_string 1 (avgFrequency m) \<and> fixed_string 2 (avgCost m)
       \<and> number_valued (totalReach m) \<and> number_valued (avgReach m)
       \<and> number_valued (totalCost m)
       \<and> (\<exists>x. totalRows m = JNum x) \<and> (\<exists>x. totalCampaigns m = JNum x)"
proof -
  from assms obtain rs
    where t: "try_block (validateMediaData d) (columnMappings (validateMediaData d)) rs = Inr m"
    by (rule metrics_try_block)
  have "fixed_string 2 (avgCTR m) \<and> fixed_string 2 (minCTR m) \<and> fixed_string 2 (maxCTR m)"
    using try_block_keys(1) [OF t]
    by (auto simp: ctr_keys_def rate_stats_def fixed_string_def split: option.splits if_splits)
  moreover have "fixed_string 2 (avgCPM m) \<and> fixed_string 2 (minCPM m) \<and> fixed_string 2 (maxCPM m)"
    using try_block_keys(2) [OF t]
    by (auto simp: cpm_keys_def rate_stats_def fixed_string_def split: option.splits if_splits)
  moreover have "number_valued (totalReach m) \<and> number_valued (avgReach m)"
    using try_block_keys(3) [OF t]
    by (auto simp: reach_keys_def reach_stats_def number_valued_def split: option.splits if_splits)
  moreover have "fixed_string 1 (avgFrequency m)"
    using try_block_keys(4) [OF t]
    by (auto simp: frequency_keys_def frequency_stats_def fixed_string_def
        split: option.splits if_splits)
  moreover have "number_valued (totalCost m) \<and> fixed_string 2 (avgCost m)"
    using try_block_keys(5) [OF t]
    by (auto simp: cost_keys_def cost_stats_def fixed_string_def number_valued_def
        split: option.splits if_splits)
  moreover have "(\<exists>x. totalRows m = JNum x) \<and> (\<exists>x. totalCampaigns m = JNum x)"
    using try_block_base_keys [OF t] by (simp add: base_keys_def)
  ultimately show ?thesis by blast
qed

theorem snapshot_mixes_types_witness:
  "calculateBasicMetrics five_field_table = Inr (Metrics five_field_snapshot)
   \<and> avgCTR five_field_snapshot = Some (JStr ''2.00'')
   \<and> avgFrequency five_field_snapshot = Some (JStr ''3.2'')
   \<and> avgCost five_field_snapshot = Some (JStr ''175.25'')
   \<and> totalReach five_field_snapshot = Some (JNum (Fin 75000))
   \<and> totalCost five_field_snapshot = Some (JNum (Fin (701 / 2)))
   \<and> totalRows five_field_snapshot = JNum (Fin 2)
   \<and> fixed_string 2 (avgCTR five_field_snapshot)
   \<and> fixed_string 1 (avgFrequency five_field_snapshot)
   \<and> fixed_string 2 (avgCost five_field_snapshot)
   \<and> number_valued (totalReach five_field_snapshot)
   \<and> number_valued (totalCost five_field_snapshot)"
proof -
  have m: "calculateBasicMetrics five_field_table = Inr (Metrics five_field_snapshot)"
    by code_simp
  show ?thesis
    using snapshot_mixes_types [OF m] m by (simp add: five_field_snapshot_def)
qed

end
